theory Spec2Isabelle
  imports Complex_Main
begin

section \<open>The atom selector of ProDy (prody/atomic/select.py)\<close>

text \<open>
  A shallow embedding of the selection engine of \<^verbatim>\<open>src/prody/atomic/select.py\<close>.
  The module's functions and the methods of its class \<^verbatim>\<open>Select\<close> keep their names
  without the leading underscore, which an Isabelle name cannot start with
  (\<^verbatim>\<open>_getNumRange\<close> is \<open>getNumRange\<close>); \<^verbatim>\<open>_and\<close>, \<^verbatim>\<open>_or\<close>, \<^verbatim>\<open>_not\<close> are
  \<open>and_op\<close>, \<open>or_op\<close>, \<open>not_op\<close>, and \<^verbatim>\<open>_within\<close> is \<open>within_op\<close>.

  Python floats are idealised as rationals (\<open>rat\<close>): literals and comparisons are
  exact, rounding is not modelled, and a run that would produce an IEEE infinity or a NaN
  ends in the error \<open>Unmodelled\<close>, as does every run whose behaviour depends on the
  NumPy version or leaves the embedded fragment.
\<close>

subsection \<open>Exceptions\<close>

text \<open>
  \<open>SelectionError d\<close> carries the diagnostic suffix (the \<^verbatim>\<open>*args\<close> of the
  constructor); the quoted selection string is not kept.
\<close>

datatype error =
    SelectionError string
  | TypeError
  | ValueError
  | ZeroDivisionError
  | AttributeError
  | IndexError
  | KeyError
  | RuntimeError
  | Unmodelled

type_synonym 'a res = "error + 'a"

definition bind :: "'a res \<Rightarrow> ('a \<Rightarrow> 'b res) \<Rightarrow> 'b res" where
  "bind m f = (case m of Inl e \<Rightarrow> Inl e | Inr x \<Rightarrow> f x)"

subsection \<open>NumPy arrays\<close>

datatype ndarray =
    BoolA "bool list"
  | IntA "int list"
  | FltA "rat list"
  | StrA "string list"

fun len :: "ndarray \<Rightarrow> nat" where
  "len (BoolA xs) = length xs"
| "len (IntA xs) = length xs"
| "len (FltA xs) = length xs"
| "len (StrA xs) = length xs"

text \<open>\<^verbatim>\<open>torf.nonzero()[0]\<close>: the positions of the true entries, in increasing order.\<close>

definition nonzero :: "bool list \<Rightarrow> nat list" where
  "nonzero m = filter (\<lambda>i. m ! i) [0..<length m]"

text \<open>\<^verbatim>\<open>a[idx]\<close> with an integer index array: a copy; an index out of range raises.\<close>

definition take_idx :: "'a list \<Rightarrow> nat list \<Rightarrow> 'a list res" where
  "take_idx xs idx =
     (if \<forall>i \<in> set idx. i < length xs then Inr (map (\<lambda>i. xs ! i) idx) else Inl IndexError)"

text \<open>
  \<^verbatim>\<open>a[mask]\<close> with a boolean mask of the array's length. What a mask of another length
  does depends on the NumPy version.
\<close>

definition take_mask :: "'a list \<Rightarrow> bool list \<Rightarrow> 'a list res" where
  "take_mask xs m =
     (if length m = length xs then Inr (map fst (filter snd (zip xs m))) else Inl Unmodelled)"

text \<open>\<^verbatim>\<open>a[idx] = v\<close> for a scalar \<open>v\<close>, and \<^verbatim>\<open>a[idx] = vs\<close> for an array of the same length.\<close>

definition put_const :: "'a list \<Rightarrow> nat list \<Rightarrow> 'a \<Rightarrow> 'a list res" where
  "put_const xs idx v =
     (if \<forall>i \<in> set idx. i < length xs
      then Inr (map (\<lambda>j. if j \<in> set idx then v else xs ! j) [0..<length xs])
      else Inl IndexError)"

fun put_list :: "'a list \<Rightarrow> nat list \<Rightarrow> 'a list \<Rightarrow> 'a list" where
  "put_list xs (i # idx) (v # vs) = put_list (xs[i := v]) idx vs"
| "put_list xs _ _ = xs"

definition put_array :: "'a list \<Rightarrow> nat list \<Rightarrow> 'a list \<Rightarrow> 'a list res" where
  "put_array xs idx vs =
     (if \<not> (\<forall>i \<in> set idx. i < length xs) then Inl IndexError
      else if length vs \<noteq> length idx then Inl Unmodelled
      else Inr (put_list xs idx vs))"

text \<open>\<^verbatim>\<open>torf[mask] = True\<close> for a boolean mask of the array's length.\<close>

definition set_where :: "bool list \<Rightarrow> bool list \<Rightarrow> bool list res" where
  "set_where torf m =
     (if length m = length torf then Inr (map2 (\<or>) torf m) else Inl Unmodelled)"

subsection \<open>Python strings\<close>

definition startswith :: "string \<Rightarrow> string \<Rightarrow> bool" where
  "startswith s p = (take (length p) s = p)"

text \<open>\<^verbatim>\<open>sub in s\<close>\<close>

fun contains :: "string \<Rightarrow> string \<Rightarrow> bool" where
  "contains sub [] = (sub = [])"
| "contains sub (c # cs) = (startswith (c # cs) sub \<or> contains sub cs)"

text \<open>
  \<^verbatim>\<open>s.replace(old, new)\<close> for a non-empty \<open>old\<close>: every occurrence, left to right,
  without overlap.
\<close>

function replace :: "string \<Rightarrow> string \<Rightarrow> string \<Rightarrow> string" where
  "replace old new [] = []"
| "replace old new (c # cs) =
     (if old \<noteq> [] \<and> startswith (c # cs) old
      then new @ replace old new (drop (length old) (c # cs))
      else c # replace old new cs)"
  by pat_completeness auto
termination
  by (relation "measure (\<lambda>(old, new, s). length s)") auto

text \<open>\<^verbatim>\<open>while '  ' in s: s = s.replace('  ', ' ')\<close>\<close>

function squeeze :: "string \<Rightarrow> string" where
  "squeeze s = (if contains ''  '' s then squeeze (replace ''  '' '' '' s) else s)"
  by pat_completeness auto

lemma startswith_length: "startswith s p \<Longrightarrow> length p \<le> length s"
proof -
  assume "startswith s p"
  then have "length (take (length p) s) = length p" by (simp add: startswith_def)
  then show ?thesis by simp
qed

lemma length_replace_le:
  "length new \<le> length old \<Longrightarrow> length (replace old new s) \<le> length s"
proof (induction old new s rule: replace.induct)
  case (1 old new)
  then show ?case by simp
next
  case (2 old new c cs)
  show ?case
  proof (cases "old \<noteq> [] \<and> startswith (c # cs) old")
    case True
    then have "length old \<le> length (c # cs)" by (blast intro: startswith_length)
    moreover have "length (replace old new (drop (length old) (c # cs)))
        \<le> length (drop (length old) (c # cs))"
      using 2(1) True 2(3) by simp
    ultimately show ?thesis using True 2(3) by simp
  next
    case False
    then show ?thesis using 2(2) 2(3) by auto
  qed
qed

lemma length_replace_less:
  "length new < length old \<Longrightarrow> contains old s \<Longrightarrow> length (replace old new s) < length s"
proof (induction old new s rule: replace.induct)
  case (1 old new)
  then show ?case by simp
next
  case (2 old new c cs)
  have ne: "old \<noteq> []" using 2(3) by auto
  show ?case
  proof (cases "startswith (c # cs) old")
    case True
    have "length (replace old new (drop (length old) (c # cs)))
        \<le> length (drop (length old) (c # cs))"
      using 2(3) by (intro length_replace_le) simp
    moreover have "length old \<le> length (c # cs)"
      using True by (rule startswith_length)
    ultimately show ?thesis using True 2(3) ne by simp
  next
    case False
    then have "contains old cs" using 2(4) by simp
    then have "length (replace old new cs) < length cs" using 2(2) False ne 2(3) by simp
    then show ?thesis using False by simp
  qed
qed

lemma squeeze_step: "contains ''  '' s \<Longrightarrow> length (replace ''  '' '' '' s) < length s"
  by (rule length_replace_less) simp_all

termination squeeze
  by (relation "measure length") (simp_all add: squeeze_step)

definition isspace :: "char \<Rightarrow> bool" where
  "isspace c = (c \<in> set [CHR '' '', CHR 0x09, CHR 0x0A, CHR 0x0B, CHR 0x0C, CHR 0x0D])"

text \<open>\<^verbatim>\<open>s.split()\<close>: the maximal runs of characters that are not white space.\<close>

fun split_ws_acc :: "string \<Rightarrow> string \<Rightarrow> string list" where
  "split_ws_acc acc [] = (if acc = [] then [] else [acc])"
| "split_ws_acc acc (c # cs) =
     (if isspace c then (if acc = [] then split_ws_acc [] cs else acc # split_ws_acc [] cs)
      else split_ws_acc (acc @ [c]) cs)"

definition split_ws :: "string \<Rightarrow> string list" where
  "split_ws s = split_ws_acc [] s"

text \<open>\<^verbatim>\<open>s.split(sep)\<close> for a non-empty separator: empty pieces are kept.\<close>

function split_acc :: "string \<Rightarrow> string \<Rightarrow> string \<Rightarrow> string list" where
  "split_acc sep acc [] = [acc]"
| "split_acc sep acc (c # cs) =
     (if sep \<noteq> [] \<and> startswith (c # cs) sep
      then acc # split_acc sep [] (drop (length sep) (c # cs))
      else split_acc sep (acc @ [c]) cs)"
  by pat_completeness auto
termination
  by (relation "measure (\<lambda>(sep, acc, s). length s)") auto

definition split :: "string \<Rightarrow> string \<Rightarrow> string list" where
  "split sep s = split_acc sep [] s"

text \<open>\<^verbatim>\<open>' '.join(items)\<close>\<close>

fun join :: "string list \<Rightarrow> string" where
  "join [] = []"
| "join [x] = x"
| "join (x # y # ys) = x @ '' '' @ join (y # ys)"

definition strip :: "string \<Rightarrow> string" where
  "strip s = rev (dropWhile isspace (rev (dropWhile isspace s)))"

subsection \<open>Python numbers from strings\<close>

definition isdigit :: "char \<Rightarrow> bool" where
  "isdigit c = (c \<in> set ''0123456789'')"

definition digits_val :: "string \<Rightarrow> int" where
  "digits_val s = foldl (\<lambda>n c. 10 * n + (of_char c - 48)) 0 s"

definition all_digits :: "string \<Rightarrow> bool" where
  "all_digits s = (s \<noteq> [] \<and> list_all isdigit s)"

text \<open>An optional sign in front: the sign as a factor, and the rest.\<close>

fun signed :: "string \<Rightarrow> int \<times> string" where
  "signed (c # cs) = (if c = CHR ''-'' then (-1, cs) else if c = CHR ''+'' then (1, cs) else (1, c # cs))"
| "signed [] = (1, [])"

text \<open>\<^verbatim>\<open>int(s)\<close> of a string: white space around, a sign, decimal digits.\<close>

definition py_int :: "string \<Rightarrow> int res" where
  "py_int s =
     (case signed (strip s) of (sg, body) \<Rightarrow>
        if all_digits body then Inr (sg * digits_val body) else Inl ValueError)"

definition lower :: "string \<Rightarrow> string" where
  "lower s =
     map (\<lambda>c. if (65::nat) \<le> of_char c \<and> of_char c \<le> (90::nat)
              then char_of (of_char c + (32::nat)) else c) s"

text \<open>
  The mantissa \<^verbatim>\<open>digits [. [digits]]\<close> or \<^verbatim>\<open>. digits\<close>, exactly.
\<close>

definition mantissa :: "string \<Rightarrow> rat option" where
  "mantissa m =
     (let ip = takeWhile (\<lambda>c. c \<noteq> CHR ''.'') m; rest = dropWhile (\<lambda>c. c \<noteq> CHR ''.'') m in
      if rest = [] then (if all_digits ip then Some (of_int (digits_val ip)) else None)
      else let fp = tl rest in
        if (ip = [] \<and> fp = []) \<or> \<not> list_all isdigit ip \<or> \<not> list_all isdigit fp then None
        else Some (of_int (digits_val ip) + of_int (digits_val fp) / 10 ^ length fp))"

subsection \<open>Python floats\<close>

text \<open>
  A Python float, and an entry of a NumPy array of floats, is an IEEE 754 double: a
  rational \<open>m * 2 ^ e\<close> with \<open>\<bar>m\<bar> < 2 ^ 53\<close> and \<open>- 1074 \<le> e \<le> 971\<close>. \<open>float64 q\<close> is
  the double nearest to \<open>q\<close>, of two nearest ones that of the even \<open>m\<close>: what \<^verbatim>\<open>float\<close>
  gives for a decimal numeral and what \<^verbatim>\<open>+\<close>, \<^verbatim>\<open>-\<close>, \<^verbatim>\<open>*\<close> and \<^verbatim>\<open>/\<close> give for the exact
  result. A result of \<open>2 ^ 1024\<close> or more is an infinity, which no rational stands for.
\<close>

definition pow2 :: "int \<Rightarrow> rat" where
  "pow2 k = (if 0 \<le> k then 2 ^ nat k else 1 / 2 ^ nat (- k))"

text \<open>\<^verbatim>\<open>n.bit_length()\<close> of an integer that is not negative.\<close>

function bit_length :: "int \<Rightarrow> nat" where
  "bit_length n = (if n \<le> 0 then 0 else Suc (bit_length (n div 2)))"
  by pat_completeness auto
termination
  by (relation "measure nat") auto

text \<open>\<open>\<lfloor>log\<^sub>2 q\<rfloor>\<close> for a positive \<open>q\<close>.\<close>

definition ilog2 :: "rat \<Rightarrow> int" where
  "ilog2 q =
     (case quotient_of q of (a, b) \<Rightarrow>
        let k = int (bit_length a) - int (bit_length b)
        in if pow2 k \<le> q then k else k - 1)"

definition round_half_even :: "rat \<Rightarrow> int" where
  "round_half_even q =
     (let f = floor q; d = q - of_int f
      in if d < 1 / 2 then f else if 1 / 2 < d then f + 1 else if even f then f else f + 1)"

definition float64 :: "rat \<Rightarrow> rat res" where
  "float64 q =
     (if q = 0 then Inr 0
      else
        let a = \<bar>q\<bar>;
            e = max (ilog2 a - 52) (- 1074);
            m = round_half_even (a / pow2 e);
            v = of_int m * pow2 e
        in if pow2 1024 \<le> v then Inl Unmodelled else Inr (if q < 0 then - v else v))"

text \<open>
  An integer as a double, where NumPy compares or combines an integer with a float:
  exact up to \<open>2 ^ 53\<close> in absolute value. Larger integers are outside the fragment.
\<close>

definition to_float :: "int \<Rightarrow> rat res" where
  "to_float i = (if \<bar>i\<bar> \<le> 2 ^ 53 then Inr (of_int i) else Inl Unmodelled)"

definition floats :: "int list \<Rightarrow> rat list res" where
  "floats xs = (if \<forall>i \<in> set xs. \<bar>i\<bar> \<le> 2 ^ 53 then Inr (map of_int xs) else Inl Unmodelled)"

text \<open>
  An entry of an integer array is a 64-bit integer; an operation that leaves the range
  wraps around, which is outside the fragment.
\<close>

definition int64 :: "int \<Rightarrow> int res" where
  "int64 v = (if - (2 ^ 63) \<le> v \<and> v < 2 ^ 63 then Inr v else Inl Unmodelled)"

text \<open>
  \<^verbatim>\<open>float(s)\<close> of a string: white space around, a sign, a decimal mantissa and an
  optional decimal exponent; the double nearest to the number written. \<^verbatim>\<open>inf\<close>,
  \<^verbatim>\<open>infinity\<close> and \<^verbatim>\<open>nan\<close> are floats that no rational stands for.
\<close>

definition py_float :: "string \<Rightarrow> rat res" where
  "py_float s =
     (case signed (strip s) of (sg, body) \<Rightarrow>
        if lower body \<in> set [''inf'', ''infinity'', ''nan''] then Inl Unmodelled
        else
          let isE = (\<lambda>c. c = CHR ''e'' \<or> c = CHR ''E'');
              m = takeWhile (\<lambda>c. \<not> isE c) body;
              rest = dropWhile (\<lambda>c. \<not> isE c) body
          in case mantissa m of
               None \<Rightarrow> Inl ValueError
             | Some v \<Rightarrow>
                 if rest = [] then float64 (of_int sg * v)
                 else case signed (tl rest) of (esg, ebody) \<Rightarrow>
                   if \<not> all_digits ebody then Inl ValueError
                   else if esg < 0 then float64 (of_int sg * v / 10 ^ nat (digits_val ebody))
                   else float64 (of_int sg * v * 10 ^ nat (digits_val ebody)))"

subsection \<open>Tokens\<close>

text \<open>
  What the parse actions receive and return: a word or quoted literal (\<open>Str\<close>), a
  compiled regular expression (\<open>Rgx\<close>, with the pattern's text), a Python float or
  bool, a fresh array (\<open>Arr\<close>), or the stored array of a column of the atom group
  itself, not a copy (\<open>Col\<close>): writing through it changes the atom group.
  \<open>Fld\<close> is a field's data array, \<open>Usr\<close> a user data array, \<open>Crd j\<close> column \<open>j\<close>
  of the coordinates, \<open>Idx\<close> the selector's own index array \<^verbatim>\<open>self._indices\<close>.
\<close>

datatype colref = Fld string | Usr string | Crd nat | Idx

datatype tok =
    Str string
  | Rgx string
  | Flt rat
  | PyBool bool
  | Arr ndarray
  | Col colref

fun the_strs :: "tok list \<Rightarrow> string list option" where
  "the_strs [] = Some []"
| "the_strs (Str s # ts) = map_option ((#) s) (the_strs ts)"
| "the_strs (_ # ts) = None"

subsection \<open>Number ranges\<close>

text \<open>
  The items \<^verbatim>\<open>_getNumRange\<close> returns: an int, a float, a string it could not read as a
  number, a list \<^verbatim>\<open>[a, b]\<close> for \<^verbatim>\<open>a to b\<close>, and a tuple for \<^verbatim>\<open>a:b\<close> or \<^verbatim>\<open>a:b:c\<close>.
\<close>

datatype numitem =
    NInt int
  | NFlt rat
  | NStr string
  | NList rat rat
  | NTuple2 int int
  | NTuple3 int int int

text \<open>One item of \<^verbatim>\<open>tknstr.split()\<close>; \<open>None\<close> is the function's \<^verbatim>\<open>return None\<close>.\<close>

definition numitem_of :: "bool \<Rightarrow> string \<Rightarrow> numitem option res" where
  "numitem_of intfloat item =
     (if contains ''to'' item then
        (case split ''to'' item of
           [a, b] \<Rightarrow>
             (case (py_float a, py_float b) of
                (Inr x, Inr y) \<Rightarrow> Inr (Some (NList x y))
              | (Inl Unmodelled, _) \<Rightarrow> Inl Unmodelled
              | (Inr _, Inl Unmodelled) \<Rightarrow> Inl Unmodelled
              | _ \<Rightarrow> Inl (SelectionError []))
         | _ \<Rightarrow> Inl (SelectionError []))
      else if contains '':'' item then
        (case split '':'' item of
           [a, b] \<Rightarrow>
             (case (py_int a, py_int b) of
                (Inr x, Inr y) \<Rightarrow> Inr (Some (NTuple2 x y))
              | _ \<Rightarrow> Inl (SelectionError []))
         | [a, b, c] \<Rightarrow>
             (case (py_int a, py_int b, py_int c) of
                (Inr x, Inr y, Inr z) \<Rightarrow> Inr (Some (NTuple3 x y z))
              | _ \<Rightarrow> Inl (SelectionError []))
         | _ \<Rightarrow> Inl (SelectionError []))
      else
        (case py_int item of
           Inr i \<Rightarrow> Inr (Some (NInt i))
         | Inl _ \<Rightarrow>
             (case py_float item of
                Inr x \<Rightarrow> Inr (Some (NFlt x))
              | Inl ValueError \<Rightarrow> if intfloat then Inr None else Inr (Some (NStr item))
              | Inl e \<Rightarrow> Inl e)))"

fun numitems :: "bool \<Rightarrow> string list \<Rightarrow> numitem list option res" where
  "numitems intfloat [] = Inr (Some [])"
| "numitems intfloat (item # items) =
     bind (numitem_of intfloat item) (\<lambda>r.
       case r of
         None \<Rightarrow> Inr None
       | Some x \<Rightarrow> bind (numitems intfloat items) (\<lambda>rs. Inr (map_option ((#) x) rs)))"

text \<open>
  \<^verbatim>\<open>_getNumRange(token, intfloat)\<close> for a list of tokens. Joining tokens that are not
  all strings raises \<^verbatim>\<open>TypeError\<close>.
\<close>

definition getNumRange :: "tok list \<Rightarrow> bool \<Rightarrow> numitem list option res" where
  "getNumRange token intfloat =
     (case the_strs token of
        None \<Rightarrow> Inl TypeError
      | Some strs \<Rightarrow>
          let tknstr = squeeze (join strs);
              tknstr = replace '' to'' ''to'' (replace ''to '' ''to'' (replace '' to '' ''to'' tknstr));
              tknstr = replace '' :'' '':'' (replace '': '' '':'' (replace '' : '' '':'' tknstr))
          in numitems intfloat (split_ws tknstr))"

subsection \<open>The keyword catalog (module globals)\<close>

definition KEYWORDS_STRING :: "string list" where
  "KEYWORDS_STRING = [''name'', ''type'', ''resname'', ''chain'', ''element'', ''segment'',
     ''altloc'', ''secondary'', ''icode'', ''chid'', ''secstr'', ''segname'']"

definition KEYWORDS_INTEGER :: "string list" where
  "KEYWORDS_INTEGER = [''serial'', ''index'', ''resnum'', ''resid'', ''segindex'', ''chindex'',
     ''resindex'']"

definition KEYWORDS_FLOAT :: "string list" where
  "KEYWORDS_FLOAT = [''x'', ''y'', ''z'', ''beta'', ''mass'', ''occupancy'', ''mass'', ''radius'',
     ''charge'']"

definition KEYWORDS_NUMERIC :: "string list" where
  "KEYWORDS_NUMERIC = KEYWORDS_FLOAT @ KEYWORDS_INTEGER"

definition KEYWORDS_VALUE_PAIRED :: "string list" where
  "KEYWORDS_VALUE_PAIRED = KEYWORDS_NUMERIC @ KEYWORDS_STRING"

text \<open>
  Modelled from the spec: \<^verbatim>\<open>KEYWORDS_SYNONYMS\<close> is built from \<^verbatim>\<open>ATOMIC_DATA_FIELDS\<close>
  (\<^verbatim>\<open>fields.py\<close>, not among the sources); the spec and the module's keyword table give
  the synonyms chid, resid, secstr and segname.
\<close>

definition KEYWORDS_SYNONYMS :: "(string \<times> string) list" where
  "KEYWORDS_SYNONYMS = [(''chid'', ''chain''), (''resid'', ''resnum''), (''secstr'', ''secondary''),
     (''segname'', ''segment'')]"

definition SECSTR_MAP :: "(string \<times> string) list" where
  "SECSTR_MAP = [(''extended'', ''E''), (''helix'', ''H''), (''helix_pi'', ''G''),
     (''helix_3_10'', ''I''), (''turn'', ''T''), (''bridge'', ''B''), (''bend'', ''S''),
     (''coil'', ''C'')]"

definition FUNCTION_MAP_keys :: "string list" where
  "FUNCTION_MAP_keys = [''sqrt'', ''sq'', ''abs'', ''floor'', ''ceil'', ''sin'', ''cos'', ''tan'',
     ''asin'', ''acos'', ''atan'', ''sinh'', ''cosh'', ''tahn'', ''exp'', ''log'', ''log10'']"

definition AND :: string where "AND = ''&&&''"
definition NOT :: string where "NOT = ''!!!''"
definition OR :: string where "OR = ''||''"

text \<open>
  An entry of \<^verbatim>\<open>KEYWORD_MAP\<close>: \<^verbatim>\<open>(residue_names, rn_invert, atom_names, an_invert)\<close>;
  the atom names are strings or compiled regular expressions.
\<close>

type_synonym kwdef = "string list option \<times> bool \<times> tok list option \<times> bool"

text \<open>
  A Python dict is an association list here: \<open>map_of\<close> reads it, \<open>dict_set\<close> assigns a
  key in place. A \<^verbatim>\<open>set\<close> turned into a list is a list without duplicates, in an order
  Python does not fix.
\<close>

fun dict_set :: "('k \<times> 'v) list \<Rightarrow> 'k \<Rightarrow> 'v \<Rightarrow> ('k \<times> 'v) list" where
  "dict_set [] k v = [(k, v)]"
| "dict_set ((k', v') # kvs) k v = (if k' = k then (k, v) # kvs else (k', v') # dict_set kvs k v)"

record catalog =
  KEYWORD_RESNAMES :: "(string \<times> string list) list"
  KEYWORD_NAME_REGEX :: "(string \<times> string) list"
  BACKBONE_ATOM_NAMES :: "string list"
  BACKBONE_FULL_ATOM_NAMES :: "string list"
  KEYWORD_MAP :: "(string \<times> kwdef) list"

definition KEYWORD_RESNAMES_READONLY :: "(string \<times> string) list" where
  "KEYWORD_RESNAMES_READONLY = [
     (''acyclic'', ''protein and not cyclic''),
     (''charged'', ''acidic or basic''),
     (''large'', ''not (small or medium)''),
     (''neutral'', ''protein and not charged''),
     (''polar'', ''protein and not hydrophobic''),
     (''surface'', ''protein and not buried'')]"

text \<open>\<^verbatim>\<open>KEYWORD_RESNAMES[key]\<close>: a missing key raises \<^verbatim>\<open>KeyError\<close>.\<close>

definition resnames_of :: "(string \<times> string list) list \<Rightarrow> string \<Rightarrow> string list res" where
  "resnames_of d k = (case map_of d k of None \<Rightarrow> Inl KeyError | Some v \<Rightarrow> Inr v)"

text \<open>\<^verbatim>\<open>list(a.difference(set(b)))\<close> for a set \<open>a\<close> given as a list without duplicates.\<close>

definition difference :: "string list \<Rightarrow> string list \<Rightarrow> string list" where
  "difference a b = filter (\<lambda>x. x \<notin> set b) a"

definition setReadonlyResidueNames ::
  "(string \<times> string list) list \<Rightarrow> (string \<times> string list) list res" where
  "setReadonlyResidueNames d0 =
     bind (resnames_of d0 ''protein'') (\<lambda>p. let protein = remdups p in
     bind (resnames_of d0 ''cyclic'') (\<lambda>cyclic.
       let d1 = dict_set d0 ''acyclic'' (difference protein cyclic) in
     bind (resnames_of d1 ''acidic'') (\<lambda>acidic.
     bind (resnames_of d1 ''basic'') (\<lambda>basic.
       let d2 = dict_set d1 ''charged'' (remdups (acidic @ basic)) in
     bind (resnames_of d2 ''small'') (\<lambda>small.
     bind (resnames_of d2 ''medium'') (\<lambda>medium.
       let d3 = dict_set d2 ''large'' (difference protein (small @ medium)) in
     bind (resnames_of d3 ''charged'') (\<lambda>charged.
       let d4 = dict_set d3 ''neutral'' (difference protein charged) in
     bind (resnames_of d4 ''hydrophobic'') (\<lambda>hydrophobic.
       let d5 = dict_set d4 ''polar'' (difference protein hydrophobic) in
     bind (resnames_of d5 ''buried'') (\<lambda>buried.
       Inr (dict_set d5 ''surface'' (difference protein buried)))))))))))"

definition KEYWORD_RESNAMES_literal :: "(string \<times> string list) list" where
  "KEYWORD_RESNAMES_literal = [
    (''protein'', [''ALA'', ''ARG'', ''ASN'', ''ASP'', ''CYS'', ''GLN'', ''GLU'', ''GLY'', ''HIS'',
       ''ILE'', ''LEU'', ''LYS'', ''MET'', ''PHE'', ''PRO'', ''SER'', ''THR'', ''TRP'', ''TYR'',
       ''VAL'', ''HSD'', ''HSE'', ''HSP'', ''GLX'', ''ASX'', ''SEC'', ''PYL'', ''XLE'', ''CSO'']),
    (''nucleic'', [''GUA'', ''ADE'', ''CYT'', ''THY'', ''URA'', ''DA'', ''DC'', ''DG'', ''DT'',
       ''A'', ''C'', ''G'', ''T'', ''U'']),
    (''acidic'', [''ASP'', ''GLU'']),
    (''aliphatic'', [''ALA'', ''GLY'', ''ILE'', ''LEU'', ''VAL'', ''XLE'']),
    (''aromatic'', [''HIS'', ''PHE'', ''TRP'', ''TYR'', ''HSD'', ''HSE'', ''HSP'']),
    (''basic'', [''LYS'', ''ARG'', ''HIS'', ''HSP'', ''HSD'']),
    (''buried'', [''ALA'', ''LEU'', ''VAL'', ''ILE'', ''XLE'', ''PHE'', ''CYS'', ''MET'', ''TRP'']),
    (''cyclic'', [''HIS'', ''PHE'', ''PRO'', ''TRP'', ''TYR'', ''HSD'', ''HSE'', ''HSP'']),
    (''hydrophobic'', [''ALA'', ''ILE'', ''LEU'', ''MET'', ''PHE'', ''PRO'', ''TRP'', ''VAL'',
       ''XLE'']),
    (''small'', [''ALA'', ''GLY'', ''SER'']),
    (''medium'', [''VAL'', ''THR'', ''ASP'', ''ASN'', ''ASX'', ''PRO'', ''CYS'', ''SEC'']),
    (''water'', [''HOH'', ''WAT'', ''TIP3'', ''H2O'', ''HH0'', ''OHH'', ''OH2'', ''SOL'', ''TIP'',
       ''TIP2'', ''TIP4'']),
    (''lipid'', [''DLPE'', ''DMPC'', ''DPPC'', ''GPC'', ''LPPC'', ''PALM'', ''PC'', ''PGCL'',
       ''POPC'', ''POPE'']),
    (''heme'', [''HEM'', ''HEME'']),
    (''ion'', [''AL'', ''BA'', ''CA'', ''CAL'', ''CD'', ''CES'', ''CLA'', ''CL'', ''CO'', ''CS'',
       ''CU'', ''CU1'', ''CUA'', ''HG'', ''IN'', ''IOD'', ''K'', ''MG'', ''MN3'', ''MO3'', ''MO4'',
       ''MO5'', ''MO6'', ''NA'', ''NAW'', ''OC7'', ''PB'', ''POT'', ''PT'', ''RB'', ''SOD'', ''TB'',
       ''TL'', ''WO4'', ''YB'', ''ZN'', ''ZN1'', ''ZN2'']),
    (''sugar'', [''AGLC'']),
    (''at'', [''ADE'', ''A'', ''THY'', ''T'']),
    (''cg'', [''CYT'', ''C'', ''GUA'', ''G'']),
    (''purine'', [''ADE'', ''A'', ''GUA'', ''G'']),
    (''pyrimidine'', [''CYT'', ''C'', ''THY'', ''T'', ''URA'', ''U''])]"

definition KEYWORD_NAME_REGEX_literal :: "(string \<times> string) list" where
  "KEYWORD_NAME_REGEX_literal = [(''carbon'', ''C.*''), (''hydrogen'', ''[0-9]?H.*''),
     (''nitrogen'', ''N.*''), (''oxygen'', ''O.*''), (''sulfur'', ''S.*'')]"

text \<open>
  \<^verbatim>\<open>_buildKeywordMap\<close> assigns into the dict \<^verbatim>\<open>KEYWORD_MAP\<close>: an entry per key of
  \<^verbatim>\<open>KEYWORD_RESNAMES\<close>, then the atom-name keywords. Each entry holds the residue
  name list that \<^verbatim>\<open>KEYWORD_RESNAMES\<close> holds at that moment.
\<close>

definition buildKeywordMap :: "catalog \<Rightarrow> catalog res" where
  "buildKeywordMap cat =
     (let rn = KEYWORD_RESNAMES cat in
      bind (resnames_of rn ''protein'') (\<lambda>protein.
      bind (resnames_of rn ''nucleic'') (\<lambda>nucleic.
      bind (resnames_of rn ''ion'') (\<lambda>ion.
      case map_of (KEYWORD_NAME_REGEX cat) ''carbon'' of None \<Rightarrow> Inl KeyError | Some carbon \<Rightarrow>
      case map_of (KEYWORD_NAME_REGEX cat) ''hydrogen'' of None \<Rightarrow> Inl KeyError | Some hydrogen \<Rightarrow>
        let m = foldl (\<lambda>m (k, names). dict_set m k (Some names, False, None, False))
                  (KEYWORD_MAP cat) rn;
            calpha = (Some protein, False, Some [Str ''CA''], False);
            backbone = (Some protein, False, Some (map Str (BACKBONE_ATOM_NAMES cat)), False);
            backbonefull = (Some protein, False, Some (map Str (BACKBONE_FULL_ATOM_NAMES cat)), False);
            sidechain = (Some protein, False, Some (map Str (BACKBONE_FULL_ATOM_NAMES cat)), True);
            m = dict_set m ''alpha'' calpha;
            m = dict_set m ''calpha'' calpha;
            m = dict_set m ''ca'' calpha;
            m = dict_set m ''backbone'' backbone;
            m = dict_set m ''bb'' backbone;
            m = dict_set m ''backbonefull'' backbonefull;
            m = dict_set m ''bbfull'' backbonefull;
            m = dict_set m ''sidechain'' sidechain;
            m = dict_set m ''sc'' sidechain;
            m = dict_set m ''hetero'' (Some (protein @ nucleic), True, None, False);
            m = foldl (\<lambda>m (k, regex). dict_set m k (None, False, Some [Rgx regex], False))
                  m (KEYWORD_NAME_REGEX cat);
            m = dict_set m ''carbon'' (Some ion, True, Some [Rgx carbon], False);
            m = dict_set m ''noh'' (None, False, Some [Rgx hydrogen], True)
        in Inr (cat\<lparr>KEYWORD_MAP := m\<rparr>)))))"

text \<open>The module as imported: the literals, then the two calls at module level.\<close>

definition initial_catalog :: catalog where
  "initial_catalog =
     (let cat = \<lparr>KEYWORD_RESNAMES =
                   (case setReadonlyResidueNames KEYWORD_RESNAMES_literal of
                      Inr d \<Rightarrow> d | Inl _ \<Rightarrow> KEYWORD_RESNAMES_literal),
                 KEYWORD_NAME_REGEX = KEYWORD_NAME_REGEX_literal,
                 BACKBONE_ATOM_NAMES = [''CA'', ''N'', ''C'', ''O''],
                 BACKBONE_FULL_ATOM_NAMES = [''CA'', ''N'', ''C'', ''O'', ''H'', ''H1'', ''H2'',
                   ''H3'', ''OXT''],
                 KEYWORD_MAP = []\<rparr>
      in case buildKeywordMap cat of Inr c \<Rightarrow> c | Inl _ \<Rightarrow> cat)"

text \<open>\<^verbatim>\<open>KEYWORDS_BOOLEAN\<close> is computed once, when the module is imported.\<close>

definition KEYWORDS_BOOLEAN :: "string list" where
  "KEYWORDS_BOOLEAN = [''all'', ''none''] @ map fst (KEYWORD_MAP initial_catalog) @ map fst SECSTR_MAP"

definition isFloatKeyword :: "string \<Rightarrow> bool" where
  "isFloatKeyword keyword = (keyword \<in> set KEYWORDS_FLOAT)"

definition isIntKeyword :: "string \<Rightarrow> bool" where
  "isIntKeyword keyword = (keyword \<in> set KEYWORDS_INTEGER)"

definition isNumericKeyword :: "string \<Rightarrow> bool" where
  "isNumericKeyword keyword = (keyword \<in> set KEYWORDS_NUMERIC)"

definition isAlnumKeyword :: "string \<Rightarrow> bool" where
  "isAlnumKeyword keyword = (keyword \<in> set KEYWORDS_STRING)"

definition isValuePairedKeyword :: "string \<Rightarrow> bool" where
  "isValuePairedKeyword keyword = (keyword \<in> set KEYWORDS_VALUE_PAIRED)"

definition isBooleanKeyword :: "string \<Rightarrow> bool" where
  "isBooleanKeyword keyword = (keyword \<in> set KEYWORDS_BOOLEAN)"

definition isKeyword :: "string \<Rightarrow> bool" where
  "isKeyword keyword = (isBooleanKeyword keyword \<or> isValuePairedKeyword keyword)"

text \<open>
  \<^verbatim>\<open>RESERVED\<close>: the keys of \<^verbatim>\<open>ATOMIC_DATA_FIELDS\<close> and \<^verbatim>\<open>ATOMIC_ATTRIBUTES\<close>
  (\<^verbatim>\<open>fields.py\<close>, not among the sources) are the parameter \<open>field_names\<close>; the rest is the
  module's literal.
\<close>

definition RESERVED :: "string list \<Rightarrow> string list" where
  "RESERVED field_names = field_names @
     [''and'', ''or'', ''not'', ''within'', ''of'', ''exwithin'', ''same'', ''as''] @
     map fst KEYWORDS_SYNONYMS @
     [''n_atoms'', ''n_csets'', ''cslabels'', ''title'', ''coordinates'', ''bonds'', ''bmap'',
      ''numbonds'']"

definition isReserved :: "string list \<Rightarrow> string \<Rightarrow> bool" where
  "isReserved field_names word =
     (word \<in> set (RESERVED field_names) \<or> isKeyword word \<or> word \<in> set FUNCTION_MAP_keys)"

subsection \<open>Changing keyword definitions\<close>

text \<open>
  What a module-level function leaves behind besides its result: the messages it sent to
  \<^verbatim>\<open>LOGGER\<close>, by level. A raise (\<open>Inl\<close>) happens before any assignment, so it leaves
  the tables as they were.
\<close>

datatype loglevel = Info | Warning

text \<open>
  \<^verbatim>\<open>setKeywordResnames(keyword, resnames)\<close> for a string and a list of strings (the
  \<^verbatim>\<open>TypeError\<close>s of other argument types are excluded by the types).
\<close>

definition setKeywordResnames :: "string \<Rightarrow> string list \<Rightarrow> catalog \<Rightarrow> (catalog \<times> loglevel list) res" where
  "setKeywordResnames keyword resnames cat =
     (if keyword \<in> set (map fst KEYWORD_RESNAMES_READONLY) then Inr (cat, [Warning])
      else if keyword \<in> set (map fst (KEYWORD_RESNAMES cat)) then
        bind (setReadonlyResidueNames (dict_set (KEYWORD_RESNAMES cat) keyword (remdups resnames)))
          (\<lambda>d. Inr (cat\<lparr>KEYWORD_RESNAMES := d\<rparr>, []))
      else Inl ValueError)"

text \<open>\<^verbatim>\<open>getKeywordResnames(keyword)\<close>: the list, sorted in place; order is not modelled.\<close>

definition getKeywordResnames :: "string \<Rightarrow> catalog \<Rightarrow> string list option \<times> loglevel list" where
  "getKeywordResnames keyword cat =
     (case map_of (KEYWORD_RESNAMES cat) keyword of
        Some resnames \<Rightarrow> (Some resnames, [])
      | None \<Rightarrow> (None, [Warning]))"

definition setBackboneAtomNames :: "string list \<Rightarrow> bool \<Rightarrow> catalog \<Rightarrow> catalog res" where
  "setBackboneAtomNames backbone_atom_names full cat =
     buildKeywordMap
       (if full then cat\<lparr>BACKBONE_FULL_ATOM_NAMES := remdups backbone_atom_names\<rparr>
        else cat\<lparr>BACKBONE_ATOM_NAMES := remdups backbone_atom_names\<rparr>)"

subsection \<open>Selection macros\<close>

text \<open>\<^verbatim>\<open>name.isalpha() and name.islower()\<close> for a byte string: lower-case ASCII letters only.\<close>

definition isalpha :: "string \<Rightarrow> bool" where
  "isalpha s = (s \<noteq> [] \<and> list_all (\<lambda>c. let n = (of_char c :: nat) in
                  (65 \<le> n \<and> n \<le> 90) \<or> (97 \<le> n \<and> n \<le> 122)) s)"

definition islower :: "string \<Rightarrow> bool" where
  "islower s = (list_ex (\<lambda>c. let n = (of_char c :: nat) in 97 \<le> n \<and> n \<le> 122) s \<and>
                list_all (\<lambda>c. let n = (of_char c :: nat) in \<not> (65 \<le> n \<and> n \<le> 90)) s)"

text \<open>
  \<^verbatim>\<open>defSelectionMacro(name, selstr)\<close>. The test \<^verbatim>\<open>ATOMGROUP.select(selstr)\<close> selects
  from a reference atom group that the package sets elsewhere; its outcome is the
  parameter \<open>test\<close>. Only a \<^verbatim>\<open>SelectionError\<close> is caught.
\<close>

definition defSelectionMacro ::
  "(string \<Rightarrow> unit res) \<Rightarrow> string \<Rightarrow> string \<Rightarrow> (string \<times> string) list
     \<Rightarrow> ((string \<times> string) list \<times> loglevel list) res" where
  "defSelectionMacro test name selstr MACROS =
     (if isKeyword name then Inl ValueError
      else if \<not> (isalpha name \<and> islower name) then Inl ValueError
      else case test selstr of
             Inl (SelectionError d) \<Rightarrow> Inr (MACROS, [Info, Warning])
           | Inl e \<Rightarrow> Inl e
           | Inr _ \<Rightarrow> Inr (dict_set MACROS name selstr, [Info, Info]))"

text \<open>\<^verbatim>\<open>MACROS.pop(name)\<close>\<close>

definition dict_pop :: "('k \<times> 'v) list \<Rightarrow> 'k \<Rightarrow> ('k \<times> 'v) list" where
  "dict_pop d k = filter (\<lambda>kv. fst kv \<noteq> k) d"

definition delSelectionMacro ::
  "string \<Rightarrow> (string \<times> string) list \<Rightarrow> (string \<times> string) list \<times> loglevel list" where
  "delSelectionMacro name MACROS =
     (case map_of MACROS name of
        None \<Rightarrow> (MACROS, [Warning])
      | Some _ \<Rightarrow> (dict_pop MACROS name, [Info]))"

definition isMacro :: "(string \<times> string) list \<Rightarrow> string \<Rightarrow> bool" where
  "isMacro MACROS word = (word \<in> set (map fst MACROS))"

subsection \<open>Reading the residue-name table\<close>

text \<open>The residue names a keyword stands for, as a set (empty for a missing key).\<close>

definition names :: "(string \<times> string list) list \<Rightarrow> string \<Rightarrow> string set" where
  "names d k = (case map_of d k of None \<Rightarrow> {} | Some v \<Rightarrow> set v)"

text \<open>The keywords that \<^verbatim>\<open>_setReadonlyResidueNames\<close> reads are keys of the table.\<close>

definition base_keys :: "(string \<times> string list) list \<Rightarrow> bool" where
  "base_keys d = list_all (\<lambda>k. map_of d k \<noteq> None)
     [''protein'', ''cyclic'', ''acidic'', ''basic'', ''small'', ''medium'', ''hydrophobic'',
      ''buried'']"

text \<open>Each derived keyword holds what \<^verbatim>\<open>KEYWORD_RESNAMES_READONLY\<close> defines it as.\<close>

definition derived_consistent :: "(string \<times> string list) list \<Rightarrow> bool" where
  "derived_consistent d =
     (names d ''acyclic'' = names d ''protein'' - names d ''cyclic'' \<and>
      names d ''charged'' = names d ''acidic'' \<union> names d ''basic'' \<and>
      names d ''large'' = names d ''protein'' - (names d ''small'' \<union> names d ''medium'') \<and>
      names d ''neutral'' = names d ''protein'' - names d ''charged'' \<and>
      names d ''polar'' = names d ''protein'' - names d ''hydrophobic'' \<and>
      names d ''surface'' = names d ''protein'' - names d ''buried'')"

subsection \<open>Atom groups and the selector's state\<close>

text \<open>
  The atom group \<^verbatim>\<open>AtomGroup\<close> is not among the sources (\<^verbatim>\<open>atomgroup.py\<close>). The
  selector uses it through a few accessors, which this record stands for:
  \<^verbatim>\<open>numAtoms()\<close>, the active coordinate set \<^verbatim>\<open>_getCoords()\<close> (\<open>None\<close> when not
  set), the data arrays of the fields of \<^verbatim>\<open>ATOMIC_DATA_FIELDS\<close> (\<open>None\<close> when the
  keyword is no field or its array is not set), and the user data (\<^verbatim>\<open>isData(label)\<close>
  holds when \<open>ag_data\<close> has an array for the label). The private accessors
  (\<^verbatim>\<open>_getData\<close>, \<^verbatim>\<open>_getResnums\<close>, \<^verbatim>\<open>_getCoords\<close>) return the stored array itself and
  the public ones (\<^verbatim>\<open>getData\<close>) a copy, as \<^verbatim>\<open>atom.py\<close> and \<^verbatim>\<open>subset.py\<close> document
  for their own.
\<close>

type_synonym xyz = "rat \<times> rat \<times> rat"

record atomgroup =
  ag_n_atoms :: nat
  ag_coords :: "xyz list option"
  ag_fields :: "string \<Rightarrow> ndarray option"
  ag_data :: "string \<Rightarrow> ndarray option"

text \<open>
  The selector during one call of \<^verbatim>\<open>getBoolArray\<close>: the module's keyword tables, the
  regular expression engine (\<open>s_re_match p x\<close>: the compiled pattern \<open>p\<close> matches the
  string \<open>x\<close>; Python's \<^verbatim>\<open>re\<close>), \<^verbatim>\<open>self._indices\<close>, \<^verbatim>\<open>self._n_atoms\<close> and
  \<^verbatim>\<open>self._kwargs\<close>, whose values are coordinate arrays of shape (N, 3). The atom group
  \<^verbatim>\<open>self._ag\<close> is passed beside it, since a call can write to it.
\<close>

record select =
  s_catalog :: catalog
  s_re_match :: "string \<Rightarrow> string \<Rightarrow> bool"
  s_indices :: "nat list option"
  s_n_atoms :: nat
  s_kwargs :: "string \<Rightarrow> xyz list option"

fun coord :: "nat \<Rightarrow> xyz \<Rightarrow> rat" where
  "coord 0 (x, y, z) = x"
| "coord (Suc 0) (x, y, z) = y"
| "coord _ (x, y, z) = z"

text \<open>The array a \<open>Col\<close> token stands for.\<close>

definition read_col :: "select \<Rightarrow> atomgroup \<Rightarrow> colref \<Rightarrow> ndarray res" where
  "read_col s ag r =
     (case r of
        Fld k \<Rightarrow> (case ag_fields ag k of Some a \<Rightarrow> Inr a | None \<Rightarrow> Inl Unmodelled)
      | Usr k \<Rightarrow> (case ag_data ag k of Some a \<Rightarrow> Inr a | None \<Rightarrow> Inl Unmodelled)
      | Crd j \<Rightarrow> (case ag_coords ag of Some cs \<Rightarrow> Inr (FltA (map (coord j) cs)) | None \<Rightarrow> Inl Unmodelled)
      | Idx \<Rightarrow> (case s_indices s of Some idx \<Rightarrow> Inr (IntA (map int idx)) | None \<Rightarrow> Inl Unmodelled))"

definition write_col :: "atomgroup \<Rightarrow> colref \<Rightarrow> ndarray \<Rightarrow> atomgroup res" where
  "write_col ag r a =
     (case r of
        Fld k \<Rightarrow> Inr (ag\<lparr>ag_fields := (ag_fields ag)(k := Some a)\<rparr>)
      | Usr k \<Rightarrow> Inr (ag\<lparr>ag_data := (ag_data ag)(k := Some a)\<rparr>)
      | _ \<Rightarrow> Inl Unmodelled)"

text \<open>\<^verbatim>\<open>isinstance(x, np.ndarray)\<close>, with the array.\<close>

definition deref :: "select \<Rightarrow> atomgroup \<Rightarrow> tok \<Rightarrow> ndarray option res" where
  "deref s ag t =
     (case t of
        Arr a \<Rightarrow> Inr (Some a)
      | Col r \<Rightarrow> bind (read_col s ag r) (\<lambda>a. Inr (Some a))
      | _ \<Rightarrow> Inr None)"

fun take_arr :: "ndarray \<Rightarrow> nat list \<Rightarrow> ndarray res" where
  "take_arr (BoolA xs) idx = bind (take_idx xs idx) (\<lambda>ys. Inr (BoolA ys))"
| "take_arr (IntA xs) idx = bind (take_idx xs idx) (\<lambda>ys. Inr (IntA ys))"
| "take_arr (FltA xs) idx = bind (take_idx xs idx) (\<lambda>ys. Inr (FltA ys))"
| "take_arr (StrA xs) idx = bind (take_idx xs idx) (\<lambda>ys. Inr (StrA ys))"

text \<open>\<^verbatim>\<open>data[evalonly]\<close> when \<^verbatim>\<open>evalonly\<close> is not \<open>None\<close>.\<close>

definition restrict :: "ndarray \<Rightarrow> nat list option \<Rightarrow> ndarray res" where
  "restrict a evalonly = (case evalonly of None \<Rightarrow> Inr a | Some idx \<Rightarrow> take_arr a idx)"

text \<open>
  The entries of an array as floats (\<open>True\<close> is 1); an array of strings among numbers
  is outside the fragment.
\<close>

fun nums :: "ndarray \<Rightarrow> rat list res" where
  "nums (BoolA xs) = Inr (map (\<lambda>b. if b then 1 else 0) xs)"
| "nums (IntA xs) = floats xs"
| "nums (FltA xs) = Inr xs"
| "nums (StrA xs) = Inl Unmodelled"

text \<open>
  \<^verbatim>\<open>Select._getData(keyword)\<close>: the array of a field, else of the user data, else a
  \<^verbatim>\<open>SelectionError\<close>; the stored array itself for an atom group, \<^verbatim>\<open>data[indices]\<close> (a
  copy) for a subset. The cache \<^verbatim>\<open>self._data\<close> holds the stored array, so a read
  through it is a read of the atom group.
\<close>

definition getData :: "select \<Rightarrow> atomgroup \<Rightarrow> string \<Rightarrow> tok res" where
  "getData s ag keyword =
     (case (case ag_fields ag keyword of
              Some a \<Rightarrow> Some (Fld keyword, a)
            | None \<Rightarrow> (case ag_data ag keyword of Some a \<Rightarrow> Some (Usr keyword, a) | None \<Rightarrow> None)) of
        None \<Rightarrow> Inl (SelectionError [])
      | Some (r, a) \<Rightarrow>
          (case s_indices s of
             None \<Rightarrow> Inr (Col r)
           | Some idx \<Rightarrow> bind (take_arr a idx) (\<lambda>b. Inr (Arr b))))"

text \<open>The array \<^verbatim>\<open>_getData(keyword)\<close> evaluates to.\<close>

definition getData_array :: "select \<Rightarrow> atomgroup \<Rightarrow> string \<Rightarrow> ndarray res" where
  "getData_array s ag keyword =
     bind (getData s ag keyword) (\<lambda>t.
       case t of Arr a \<Rightarrow> Inr a | Col r \<Rightarrow> read_col s ag r | _ \<Rightarrow> Inl Unmodelled)"

text \<open>
  \<^verbatim>\<open>Select._getCoords()\<close>: the atom group's active coordinate set, or the subset's copy
  \<^verbatim>\<open>_coords[acsi, indices]\<close>; \<^verbatim>\<open>AttributeError\<close> when coordinates are not set.
\<close>

definition getCoords :: "select \<Rightarrow> atomgroup \<Rightarrow> xyz list res" where
  "getCoords s ag =
     (case ag_coords ag of
        None \<Rightarrow> Inl AttributeError
      | Some cs \<Rightarrow> (case s_indices s of None \<Rightarrow> Inr cs | Some idx \<Rightarrow> take_idx cs idx))"

text \<open>\<^verbatim>\<open>self._getCoords()[:,j]\<close>: a view of the stored coordinates for an atom group.\<close>

definition coords_column :: "select \<Rightarrow> atomgroup \<Rightarrow> nat \<Rightarrow> tok res" where
  "coords_column s ag j =
     bind (getCoords s ag) (\<lambda>cs.
       case s_indices s of
         None \<Rightarrow> Inr (Col (Crd j))
       | Some _ \<Rightarrow> Inr (Arr (FltA (map (coord j) cs))))"

subsection \<open>Keywords with values\<close>

text \<open>\<^verbatim>\<open>range(a, b, c)\<close>; a zero step raises \<^verbatim>\<open>ValueError\<close>.\<close>

definition py_range :: "int \<Rightarrow> int \<Rightarrow> int \<Rightarrow> int list res" where
  "py_range a b c =
     (if c = 0 then Inl ValueError
      else if c > 0 then Inr (map (\<lambda>k. a + int k * c) [0..<nat ((b - a + c - 1) div c)])
      else Inr (map (\<lambda>k. a + int k * c) [0..<nat ((a - b - c - 1) div (- c))]))"

text \<open>
  One item of the loop of \<^verbatim>\<open>_resnum\<close>; \<open>None\<close> is its \<^verbatim>\<open>return None\<close>. The residue
  numbers are integers: an integer bound is compared with them as it is, a float bound
  with their doubles.
\<close>

definition resnum_item ::
  "int list \<Rightarrow> string list res \<Rightarrow> bool list \<Rightarrow> numitem \<Rightarrow> bool list option res" where
  "resnum_item resids icodes torf item =
     (case item of
        NStr str \<Rightarrow>
          bind icodes (\<lambda>ics.
            let icode = (if [last str] = ''_'' then [] else [last str]) in
            case py_int (butlast str) of
              Inl _ \<Rightarrow> Inr None
            | Inr number \<Rightarrow>
                if length ics \<noteq> length resids then Inl Unmodelled
                else bind (set_where torf (map2 (\<lambda>r c. r = number \<and> c = icode) resids ics))
                       (\<lambda>t. Inr (Some t)))
      | NList a b \<Rightarrow>
          bind (floats resids) (\<lambda>fs.
          bind (set_where torf (map (\<lambda>r. a \<le> r \<and> r \<le> b) fs)) (\<lambda>t. Inr (Some t)))
      | NTuple2 a b \<Rightarrow>
          bind (set_where torf (map (\<lambda>r. a \<le> r \<and> r < b) resids)) (\<lambda>t. Inr (Some t))
      | NTuple3 a b c \<Rightarrow>
          bind (py_range a b c) (\<lambda>is.
          bind (set_where torf (map (\<lambda>r. r \<in> set is) resids)) (\<lambda>t. Inr (Some t)))
      | NInt i \<Rightarrow> bind (set_where torf (map (\<lambda>r. r = i) resids)) (\<lambda>t. Inr (Some t))
      | NFlt x \<Rightarrow>
          bind (floats resids) (\<lambda>fs.
          bind (set_where torf (map (\<lambda>r. r = x) fs)) (\<lambda>t. Inr (Some t))))"

text \<open>A loop over items that can return \<open>None\<close> or raise part way.\<close>

fun items_loop :: "(bool list \<Rightarrow> 'i \<Rightarrow> bool list option res) \<Rightarrow> bool list \<Rightarrow> 'i list \<Rightarrow> bool list option res" where
  "items_loop f torf [] = Inr (Some torf)"
| "items_loop f torf (item # items) =
     bind (f torf item) (\<lambda>r. case r of None \<Rightarrow> Inr None | Some t \<Rightarrow> items_loop f t items)"

definition strings_of :: "ndarray \<Rightarrow> string list res" where
  "strings_of a = (case a of StrA xs \<Rightarrow> Inr xs | _ \<Rightarrow> Inl Unmodelled)"

text \<open>The residue and serial numbers are integer arrays.\<close>

definition ints_of :: "ndarray \<Rightarrow> int list res" where
  "ints_of a = (case a of IntA xs \<Rightarrow> Inr xs | _ \<Rightarrow> Inl Unmodelled)"

text \<open>
  \<^verbatim>\<open>_resnum(token, evalonly=evalonly)\<close> with a token list (\<^verbatim>\<open>numRange\<close> is never
  passed, so it is \<open>True\<close>). The insertion codes are read when the first string item
  needs them.
\<close>

definition resnum :: "select \<Rightarrow> atomgroup \<Rightarrow> tok list \<Rightarrow> nat list option \<Rightarrow> tok option res" where
  "resnum s ag token evalonly =
     bind (getData_array s ag ''resnum'') (\<lambda>d.
     bind (restrict d evalonly) (\<lambda>d'.
       let n_atoms = (case evalonly of None \<Rightarrow> s_n_atoms s | Some idx \<Rightarrow> length idx) in
     bind (getNumRange token False) (\<lambda>numbers.
       case numbers of
         None \<Rightarrow> Inr None
       | Some items \<Rightarrow>
           bind (ints_of d') (\<lambda>resids.
             let icodes = bind (getData_array s ag ''icode'') (\<lambda>ic.
                          bind (restrict ic evalonly) strings_of) in
             bind (items_loop (resnum_item resids icodes) (replicate n_atoms False) items) (\<lambda>r.
               Inr (map_option (\<lambda>t. Arr (BoolA t)) r))))))"

text \<open>\<^verbatim>\<open>_serial(token, evalonly=evalonly)\<close> with a token list.\<close>

definition serial_item :: "int list \<Rightarrow> bool list \<Rightarrow> numitem \<Rightarrow> bool list option res" where
  "serial_item serials torf item =
     (case item of
        NStr str \<Rightarrow> Inr (Some torf)
      | _ \<Rightarrow> resnum_item serials (Inl Unmodelled) torf item)"

definition serial :: "select \<Rightarrow> atomgroup \<Rightarrow> tok list \<Rightarrow> nat list option \<Rightarrow> tok option res" where
  "serial s ag token evalonly =
     bind (getData_array s ag ''serial'') (\<lambda>d.
     bind (restrict d evalonly) (\<lambda>d'.
       let n_atoms = (case evalonly of None \<Rightarrow> s_n_atoms s | Some idx \<Rightarrow> length idx) in
     bind (getNumRange token True) (\<lambda>numbers.
       case numbers of
         None \<Rightarrow> Inr None
       | Some items \<Rightarrow>
           bind (ints_of d') (\<lambda>serials.
             bind (items_loop (serial_item serials) (replicate n_atoms False) items) (\<lambda>r.
               Inr (map_option (\<lambda>t. Arr (BoolA t)) r))))))"

text \<open>
  \<^verbatim>\<open>_evalFloat(keyword)\<close> without values returns \<^verbatim>\<open>data\<close>: a coordinate column for
  x, y and z, else \<^verbatim>\<open>_getData(keyword)\<close>.
\<close>

definition evalFloat_data :: "select \<Rightarrow> atomgroup \<Rightarrow> string \<Rightarrow> tok res" where
  "evalFloat_data s ag keyword =
     (if keyword = ''x'' then coords_column s ag 0
      else if keyword = ''y'' then coords_column s ag 1
      else if keyword = ''z'' then coords_column s ag 2
      else getData s ag keyword)"

definition tok_array :: "select \<Rightarrow> atomgroup \<Rightarrow> tok \<Rightarrow> ndarray res" where
  "tok_array s ag t =
     (case t of Arr a \<Rightarrow> Inr a | Col r \<Rightarrow> read_col s ag r | _ \<Rightarrow> Inl Unmodelled)"

definition evalFloat_item :: "rat list \<Rightarrow> bool list \<Rightarrow> numitem \<Rightarrow> bool list option res" where
  "evalFloat_item data torf item =
     (case item of
        NStr str \<Rightarrow> Inr (Some torf)
      | NList a b \<Rightarrow> bind (set_where torf (map (\<lambda>r. a \<le> r \<and> r \<le> b) data)) (\<lambda>t. Inr (Some t))
      | NTuple2 a b \<Rightarrow>
          bind (to_float a) (\<lambda>x. bind (to_float b) (\<lambda>y.
          bind (set_where torf (map (\<lambda>r. x \<le> r \<and> r < y) data)) (\<lambda>t. Inr (Some t))))
      | NTuple3 a b c \<Rightarrow> Inr None
      | NInt i \<Rightarrow>
          bind (to_float i) (\<lambda>x.
          bind (set_where torf (map (\<lambda>r. r = x) data)) (\<lambda>t. Inr (Some t)))
      | NFlt x \<Rightarrow> bind (set_where torf (map (\<lambda>r. r = x) data)) (\<lambda>t. Inr (Some t)))"

text \<open>\<^verbatim>\<open>_evalFloat(keyword, values, evalonly=evalonly)\<close> with a token list.\<close>

definition evalFloat :: "select \<Rightarrow> atomgroup \<Rightarrow> string \<Rightarrow> tok list \<Rightarrow> nat list option \<Rightarrow> tok option res" where
  "evalFloat s ag keyword values evalonly =
     bind (evalFloat_data s ag keyword) (\<lambda>t.
     bind (tok_array s ag t) (\<lambda>d.
     bind (restrict d evalonly) (\<lambda>d'.
     bind (getNumRange values True) (\<lambda>numbers.
       case numbers of
         None \<Rightarrow> Inr None
       | Some items \<Rightarrow>
           bind (nums d') (\<lambda>data.
           bind (items_loop (evalFloat_item data) (replicate (length data) False) items) (\<lambda>r.
             Inr (map_option (\<lambda>t. Arr (BoolA t)) r)))))))"

text \<open>Python's slice of a sequence of length \<open>n\<close>: the positions \<^verbatim>\<open>a:b:c\<close> covers.\<close>

definition slice_adjust :: "int \<Rightarrow> int \<Rightarrow> int \<Rightarrow> int" where
  "slice_adjust n step i =
     (if i < 0 then (if i + n < 0 then (if step < 0 then - 1 else 0) else i + n)
      else if i \<ge> n then (if step < 0 then n - 1 else n)
      else i)"

definition slice_indices :: "nat \<Rightarrow> int \<Rightarrow> int \<Rightarrow> int \<Rightarrow> nat list res" where
  "slice_indices n a b c =
     bind (py_range (slice_adjust (int n) c a) (slice_adjust (int n) c b) c) (\<lambda>is. Inr (map nat is))"

text \<open>
  One item of the loop of \<^verbatim>\<open>_index\<close>; an \<^verbatim>\<open>IndexError\<close> is passed over. What a float
  used as an index does depends on the NumPy version.
\<close>

definition index_item :: "bool list \<Rightarrow> numitem \<Rightarrow> bool list option res" where
  "index_item torf item =
     (let n = length torf in
      case item of
        NTuple2 a b \<Rightarrow>
          bind (slice_indices n a b 1) (\<lambda>idx. bind (put_const torf idx True) (\<lambda>t. Inr (Some t)))
      | NTuple3 a b c \<Rightarrow>
          bind (slice_indices n a b c) (\<lambda>idx. bind (put_const torf idx True) (\<lambda>t. Inr (Some t)))
      | NList x y \<Rightarrow>
          bind (slice_indices n (ceiling x) (floor y + 1) 1) (\<lambda>idx.
          bind (put_const torf idx True) (\<lambda>t. Inr (Some t)))
      | NInt i \<Rightarrow>
          if - int n \<le> i \<and> i < int n
          then bind (put_const torf [nat (i mod int n)] True) (\<lambda>t. Inr (Some t))
          else Inr (Some torf)
      | _ \<Rightarrow> Inl Unmodelled)"

text \<open>\<^verbatim>\<open>_index(token, evalonly=evalonly)\<close> with a token list.\<close>

definition index :: "select \<Rightarrow> atomgroup \<Rightarrow> tok list \<Rightarrow> nat list option \<Rightarrow> tok option res" where
  "index s ag token evalonly =
     bind (getNumRange token True) (\<lambda>numbers.
       case numbers of
         None \<Rightarrow> Inr None
       | Some items \<Rightarrow>
           bind (items_loop index_item (replicate (ag_n_atoms ag) False) items) (\<lambda>r.
             case r of
               None \<Rightarrow> Inr None
             | Some torf \<Rightarrow>
                 bind (case s_indices s of None \<Rightarrow> Inr torf | Some idx \<Rightarrow> take_idx torf idx) (\<lambda>t.
                 bind (case evalonly of None \<Rightarrow> Inr t | Some idx \<Rightarrow> take_idx t idx) (\<lambda>t'.
                   Inr (Some (Arr (BoolA t')))))))"

text \<open>
  \<^verbatim>\<open>_index()\<close> without a token: \<^verbatim>\<open>self._indices or np.arange(self._ag._n_atoms)\<close>. The
  truth value of an array of one element is that of the element, an empty array is
  false, and a longer one raises \<^verbatim>\<open>ValueError\<close>.
\<close>

definition index_all :: "select \<Rightarrow> atomgroup \<Rightarrow> tok res" where
  "index_all s ag =
     (let arange = Arr (IntA (map int [0..<ag_n_atoms ag])) in
      case s_indices s of
        None \<Rightarrow> Inr arange
      | Some [] \<Rightarrow> Inr arange
      | Some [i] \<Rightarrow> if i \<noteq> 0 then Inr (Col Idx) else Inr arange
      | Some _ \<Rightarrow> Inl ValueError)"

definition specialKeywords :: "string list" where
  "specialKeywords = [''secondary'', ''chain'', ''altloc'', ''segment'', ''icode'']"

text \<open>The first value \<^verbatim>\<open>'_'\<close> becomes a blank, and the empty string is appended.\<close>

fun underscore :: "tok list \<Rightarrow> tok list" where
  "underscore [] = []"
| "underscore (v # vs) = (if v = Str ''_'' then Str '' '' # vs @ [Str []] else v # underscore vs)"

text \<open>\<^verbatim>\<open>_evalAlnum(keyword, values, evalonly=evalonly)\<close>\<close>

definition evalAlnum :: "select \<Rightarrow> atomgroup \<Rightarrow> string \<Rightarrow> tok list \<Rightarrow> nat list option \<Rightarrow> tok option res" where
  "evalAlnum s ag keyword values evalonly =
     (let keyword = (case map_of KEYWORDS_SYNONYMS keyword of Some k \<Rightarrow> k | None \<Rightarrow> keyword) in
      bind (getData_array s ag keyword) (\<lambda>d.
        let values = (if keyword \<in> set specialKeywords then underscore values else values) in
      bind (restrict d evalonly) (\<lambda>d'.
      bind (strings_of d') (\<lambda>data.
        let strings = concat (map (\<lambda>v. case v of Str x \<Rightarrow> [x] | _ \<Rightarrow> []) values);
            regexps = filter (\<lambda>v. case v of Str x \<Rightarrow> False | _ \<Rightarrow> True) values;
            torf = (if length strings = 1 then map (\<lambda>x. x = hd strings) data
                    else if length strings > 4 then map (\<lambda>x. x \<in> set strings) data
                    else if strings \<noteq> [] then map (\<lambda>x. \<exists>v \<in> set strings. x = v) data
                    else replicate (length data) False)
        in if regexps = [] \<or> data = [] then Inr (Some (Arr (BoolA torf)))
           else case last regexps of
                  Rgx p \<Rightarrow> if list_all (\<lambda>v. case v of Rgx _ \<Rightarrow> True | _ \<Rightarrow> False) regexps
                            then Inr (Some (Arr (BoolA (map (s_re_match s p) data))))
                            else Inl AttributeError
                | _ \<Rightarrow> Inl AttributeError))))"

text \<open>
  \<^verbatim>\<open>_evalUserdata(keyword, values, evalonly)\<close>; \<^verbatim>\<open>self._atoms.getData(keyword)\<close> is a
  copy of the user data, for a subset the copy \<^verbatim>\<open>data[indices]\<close>.
\<close>

definition evalUserdata ::
  "select \<Rightarrow> atomgroup \<Rightarrow> string \<Rightarrow> tok list option \<Rightarrow> nat list option \<Rightarrow> tok option res" where
  "evalUserdata s ag keyword values evalonly =
     (case ag_data ag keyword of
        None \<Rightarrow> Inl AttributeError
      | Some a \<Rightarrow>
          bind (case s_indices s of None \<Rightarrow> Inr a | Some idx \<Rightarrow> take_arr a idx) (\<lambda>data.
            case values of
              None \<Rightarrow>
                (case data of
                   BoolA _ \<Rightarrow> bind (restrict data evalonly) (\<lambda>d. Inr (Some (Arr d)))
                 | _ \<Rightarrow> Inr None)
            | Some vs \<Rightarrow>
                (case data of
                   IntA _ \<Rightarrow> evalFloat s ag keyword vs evalonly
                 | FltA _ \<Rightarrow> evalFloat s ag keyword vs evalonly
                 | StrA _ \<Rightarrow> evalAlnum s ag keyword vs evalonly
                 | BoolA _ \<Rightarrow> Inr None)))"

definition isData :: "atomgroup \<Rightarrow> string \<Rightarrow> bool" where
  "isData ag label = (ag_data ag label \<noteq> None)"

subsection \<open>Numeric expressions\<close>

text \<open>
  \<^verbatim>\<open>_evalNumeric(token)\<close>: a number operand or a numeric keyword; \<open>None\<close> when the
  token is neither. \<^verbatim>\<open>float\<close> of a compiled pattern raises \<^verbatim>\<open>TypeError\<close>.
\<close>

definition evalNumeric :: "select \<Rightarrow> atomgroup \<Rightarrow> tok \<Rightarrow> tok option res" where
  "evalNumeric s ag token =
     (case token of
        Arr a \<Rightarrow> Inr (Some token)
      | Col r \<Rightarrow> Inr (Some token)
      | Flt x \<Rightarrow> Inr (Some token)
      | PyBool b \<Rightarrow> Inr (Some (Flt (if b then 1 else 0)))
      | Rgx p \<Rightarrow> Inl TypeError
      | Str t \<Rightarrow>
          if isFloatKeyword t then bind (evalFloat_data s ag t) (\<lambda>d. Inr (Some d))
          else if t = ''resnum'' \<or> t = ''resid'' then bind (getData s ag ''resnum'') (\<lambda>d. Inr (Some d))
          else if t = ''index'' then bind (index_all s ag) (\<lambda>d. Inr (Some d))
          else if t = ''serial'' then bind (getData s ag ''serial'') (\<lambda>d. Inr (Some d))
          else if isNumericKeyword t then bind (getData s ag t) (\<lambda>d. Inr (Some d))
          else if isData ag t then
            bind (getData s ag t) (\<lambda>d.
            bind (tok_array s ag d) (\<lambda>a.
              case a of IntA _ \<Rightarrow> Inr (Some d) | FltA _ \<Rightarrow> Inr (Some d) | _ \<Rightarrow> Inr None))
          else (case py_float t of
                  Inr x \<Rightarrow> Inr (Some (Flt x))
                | Inl ValueError \<Rightarrow> Inr None
                | Inl e \<Rightarrow> Inl e))"

text \<open>An operand of a binary operation: a Python float or an array.\<close>

datatype num = Sc rat | Ar ndarray

definition num_of :: "select \<Rightarrow> atomgroup \<Rightarrow> tok \<Rightarrow> num res" where
  "num_of s ag t =
     (case t of
        Flt x \<Rightarrow> Inr (Sc x)
      | Arr a \<Rightarrow> Inr (Ar a)
      | Col r \<Rightarrow> bind (read_col s ag r) (\<lambda>a. Inr (Ar a))
      | _ \<Rightarrow> Inl Unmodelled)"

definition comparison :: "string \<Rightarrow> (rat \<Rightarrow> rat \<Rightarrow> bool) option" where
  "comparison op =
     (if op = ''>'' then Some (\<lambda>a b. a > b)
      else if op = ''<'' then Some (\<lambda>a b. a < b)
      else if op = ''>='' then Some (\<lambda>a b. a \<ge> b)
      else if op = ''<='' then Some (\<lambda>a b. a \<le> b)
      else if op = ''='' \<or> op = ''=='' then Some (\<lambda>a b. a = b)
      else if op = ''!='' then Some (\<lambda>a b. a \<noteq> b)
      else None)"

text \<open>
  Two arrays in one elementwise operation: of one length, or one of them of length one
  (broadcast); what other shapes do depends on the operation and the NumPy version.
\<close>

definition broadcast :: "'a list \<Rightarrow> 'b list \<Rightarrow> ('a \<times> 'b) list res" where
  "broadcast xs ys =
     (if length xs = length ys then Inr (zip xs ys)
      else if length xs = 1 then Inr (map (\<lambda>y. (hd xs, y)) ys)
      else if length ys = 1 then Inr (map (\<lambda>x. (x, hd ys)) xs)
      else Inl Unmodelled)"

text \<open>Python's \<^verbatim>\<open>a % b\<close> on floats, for a divisor that is not zero.\<close>

definition fmod :: "rat \<Rightarrow> rat \<Rightarrow> rat" where
  "fmod a b = a - b * of_int (floor (a / b))"

text \<open>
  An arithmetic operation on two Python floats: the double nearest to the exact result.
  Division and modulo by zero raise \<^verbatim>\<open>ZeroDivisionError\<close>.
\<close>

definition arith_float :: "string \<Rightarrow> (rat \<Rightarrow> rat \<Rightarrow> rat res) option" where
  "arith_float op =
     (if op = ''+'' then Some (\<lambda>a b. float64 (a + b))
      else if op = ''-'' then Some (\<lambda>a b. float64 (a - b))
      else if op = ''*'' then Some (\<lambda>a b. float64 (a * b))
      else if op = ''/'' then Some (\<lambda>a b. if b = 0 then Inl ZeroDivisionError else float64 (a / b))
      else if op = ''%'' then Some (\<lambda>a b. if b = 0 then Inl ZeroDivisionError else float64 (fmod a b))
      else None)"

text \<open>
  The same on entries of arrays, where a zero divisor gives an infinity or a NaN, and on
  entries of two integer arrays (Python 2: \<^verbatim>\<open>/\<close> is floor division there).
\<close>

definition arith_entry :: "string \<Rightarrow> rat \<Rightarrow> rat \<Rightarrow> rat res" where
  "arith_entry op a b =
     (case arith_float op of
        None \<Rightarrow> Inl KeyError
      | Some f \<Rightarrow> (case f a b of Inl _ \<Rightarrow> Inl Unmodelled | Inr v \<Rightarrow> Inr v))"

definition arith_int :: "string \<Rightarrow> int \<Rightarrow> int \<Rightarrow> int res" where
  "arith_int op a b =
     (if op = ''+'' then int64 (a + b)
      else if op = ''-'' then int64 (a - b)
      else if op = ''*'' then int64 (a * b)
      else if op = ''/'' then (if b = 0 then Inl Unmodelled else int64 (a div b))
      else if op = ''%'' then (if b = 0 then Inl Unmodelled else int64 (a mod b))
      else Inl KeyError)"

fun sequence :: "'a res list \<Rightarrow> 'a list res" where
  "sequence [] = Inr []"
| "sequence (x # xs) = bind x (\<lambda>v. bind (sequence xs) (\<lambda>vs. Inr (v # vs)))"

text \<open>
  \<^verbatim>\<open>BINOP_MAP[op](a, b)\<close>. A comparison of two floats is a Python bool, of arrays a
  boolean array. Arithmetic with a Python float gives a float array; two integer arrays
  give an integer array; arithmetic on boolean or string arrays is outside the fragment.
\<close>

definition BINOP :: "string \<Rightarrow> num \<Rightarrow> num \<Rightarrow> tok res" where
  "BINOP op a b =
     (case comparison op of
        Some c \<Rightarrow>
          (case (a, b) of
             (Sc x, Sc y) \<Rightarrow> Inr (PyBool (c x y))
           | (Ar u, Sc y) \<Rightarrow> bind (nums u) (\<lambda>xs. Inr (Arr (BoolA (map (\<lambda>x. c x y) xs))))
           | (Sc x, Ar v) \<Rightarrow> bind (nums v) (\<lambda>ys. Inr (Arr (BoolA (map (\<lambda>y. c x y) ys))))
           | (Ar u, Ar v) \<Rightarrow>
               bind (nums u) (\<lambda>xs. bind (nums v) (\<lambda>ys. bind (broadcast xs ys) (\<lambda>ps.
                 Inr (Arr (BoolA (map (\<lambda>(x, y). c x y) ps)))))))
      | None \<Rightarrow>
          (case arith_float op of
             None \<Rightarrow> Inl KeyError
           | Some f \<Rightarrow>
               (case (a, b) of
                  (Sc x, Sc y) \<Rightarrow> bind (f x y) (\<lambda>v. Inr (Flt v))
                | (Ar u, Sc y) \<Rightarrow>
                    bind (nums u) (\<lambda>xs. bind (sequence (map (\<lambda>x. arith_entry op x y) xs)) (\<lambda>vs.
                      Inr (Arr (FltA vs))))
                | (Sc x, Ar v) \<Rightarrow>
                    bind (nums v) (\<lambda>ys. bind (sequence (map (\<lambda>y. arith_entry op x y) ys)) (\<lambda>vs.
                      Inr (Arr (FltA vs))))
                | (Ar (IntA xs), Ar (IntA ys)) \<Rightarrow>
                    bind (broadcast xs ys) (\<lambda>ps.
                    bind (sequence (map (\<lambda>(x, y). arith_int op x y) ps)) (\<lambda>vs. Inr (Arr (IntA vs))))
                | (Ar (FltA xs), Ar (IntA ys)) \<Rightarrow>
                    bind (floats ys) (\<lambda>fs. bind (broadcast xs fs) (\<lambda>ps.
                    bind (sequence (map (\<lambda>(x, y). arith_entry op x y) ps)) (\<lambda>vs. Inr (Arr (FltA vs)))))
                | (Ar (IntA xs), Ar (FltA ys)) \<Rightarrow>
                    bind (floats xs) (\<lambda>fs. bind (broadcast fs ys) (\<lambda>ps.
                    bind (sequence (map (\<lambda>(x, y). arith_entry op x y) ps)) (\<lambda>vs. Inr (Arr (FltA vs)))))
                | (Ar (FltA xs), Ar (FltA ys)) \<Rightarrow>
                    bind (broadcast xs ys) (\<lambda>ps.
                    bind (sequence (map (\<lambda>(x, y). arith_entry op x y) ps)) (\<lambda>vs. Inr (Arr (FltA vs))))
                | _ \<Rightarrow> Inl Unmodelled)))"

text \<open>\<^verbatim>\<open>BINOP_MAP[op](left, right)\<close> on tokens; an operator that is no string is no key.\<close>

definition binop :: "select \<Rightarrow> atomgroup \<Rightarrow> tok \<Rightarrow> tok \<Rightarrow> tok \<Rightarrow> tok res" where
  "binop s ag op left right =
     (case op of
        Str o' \<Rightarrow> bind (num_of s ag left) (\<lambda>a. bind (num_of s ag right) (\<lambda>b. BINOP o' a b))
      | _ \<Rightarrow> Inl KeyError)"

text \<open>
  The truth value of \<^verbatim>\<open>right == 0.0\<close> in an \<^verbatim>\<open>if\<close>: of a float the comparison, of an
  array of one element that of the element, of an empty array false; a longer array
  raises \<^verbatim>\<open>ValueError\<close>.
\<close>

definition is_zero :: "select \<Rightarrow> atomgroup \<Rightarrow> tok \<Rightarrow> bool res" where
  "is_zero s ag right =
     bind (num_of s ag right) (\<lambda>b.
       case b of
         Sc y \<Rightarrow> Inr (y = 0)
       | Ar v \<Rightarrow> bind (nums v) (\<lambda>ys.
           case ys of [] \<Rightarrow> Inr False | [y] \<Rightarrow> Inr (y = 0) | _ \<Rightarrow> Inl ValueError))"

definition zero_division :: string where
  "zero_division = ''This leads to zero division error.''"

text \<open>
  \<^verbatim>\<open>_mul\<close>: the loop over \<^verbatim>\<open>tokens[1:]\<close>, an operator and an operand in each round.
\<close>

fun mul_loop :: "select \<Rightarrow> atomgroup \<Rightarrow> tok \<Rightarrow> tok list \<Rightarrow> tok res" where
  "mul_loop s ag left [] = Inr left"
| "mul_loop s ag left [op] = Inl IndexError"
| "mul_loop s ag left (op # t # rest) =
     bind (evalNumeric s ag t) (\<lambda>r.
       case r of
         None \<Rightarrow> Inl (SelectionError [])
       | Some right \<Rightarrow>
           bind (if op = Str ''/'' then is_zero s ag right else Inr False) (\<lambda>z.
             if z then Inl (SelectionError zero_division)
             else bind (binop s ag op left right) (\<lambda>l. mul_loop s ag l rest)))"

definition mul :: "select \<Rightarrow> atomgroup \<Rightarrow> tok list \<Rightarrow> tok res" where
  "mul s ag tokens =
     (case tokens of
        [] \<Rightarrow> Inl IndexError
      | t # rest \<Rightarrow>
          bind (evalNumeric s ag t) (\<lambda>r.
            case r of None \<Rightarrow> Inl (SelectionError []) | Some left \<Rightarrow> mul_loop s ag left rest))"

text \<open>\<^verbatim>\<open>_add\<close>\<close>

fun add_loop :: "select \<Rightarrow> atomgroup \<Rightarrow> tok \<Rightarrow> tok list \<Rightarrow> tok res" where
  "add_loop s ag left [] = Inr left"
| "add_loop s ag left [op] = Inl IndexError"
| "add_loop s ag left (op # t # rest) =
     bind (evalNumeric s ag t) (\<lambda>r.
       case r of
         None \<Rightarrow> Inl (SelectionError [])
       | Some right \<Rightarrow> bind (binop s ag op left right) (\<lambda>l. add_loop s ag l rest))"

definition add :: "select \<Rightarrow> atomgroup \<Rightarrow> tok list \<Rightarrow> tok res" where
  "add s ag tokens =
     (case tokens of
        [] \<Rightarrow> Inl IndexError
      | t # rest \<Rightarrow>
          bind (evalNumeric s ag t) (\<lambda>r.
            case r of None \<Rightarrow> Inl (SelectionError []) | Some left \<Rightarrow> add_loop s ag left rest))"

text \<open>
  \<^verbatim>\<open>result *= BINOP_MAP[comp](left, right)\<close> in \<^verbatim>\<open>_comp\<close>: the conjunction of boolean
  arrays; the product of two Python bools is a Python int, which is outside the fragment.
\<close>

definition times :: "tok \<Rightarrow> tok \<Rightarrow> tok res" where
  "times result r =
     (case (result, r) of
        (Arr (BoolA xs), Arr (BoolA ys)) \<Rightarrow>
          if length xs = length ys then Inr (Arr (BoolA (map2 (\<and>) xs ys))) else Inl Unmodelled
      | (Arr (BoolA xs), PyBool b) \<Rightarrow> Inr (Arr (BoolA (map (\<lambda>x. x \<and> b) xs)))
      | (PyBool b, Arr (BoolA ys)) \<Rightarrow> Inr (Arr (BoolA (map (\<lambda>y. b \<and> y) ys)))
      | _ \<Rightarrow> Inl Unmodelled)"

fun comp_loop :: "select \<Rightarrow> atomgroup \<Rightarrow> tok \<Rightarrow> tok option \<Rightarrow> tok list \<Rightarrow> tok option res" where
  "comp_loop s ag left result [] = Inr result"
| "comp_loop s ag left result [op] = Inl IndexError"
| "comp_loop s ag left result (op # t # rest) =
     bind (evalNumeric s ag t) (\<lambda>r.
       case r of
         None \<Rightarrow> Inl (SelectionError [])
       | Some right \<Rightarrow>
           bind (binop s ag op left right) (\<lambda>c.
           bind (case result of None \<Rightarrow> Inr c | Some res \<Rightarrow> times res c) (\<lambda>res.
             comp_loop s ag right (Some res) rest)))"

text \<open>
  \<^verbatim>\<open>_comp\<close>. A chain of one operand would return \<open>None\<close>, which leaves the tokens to
  pyparsing as they are; the grammar gives the action three tokens or more.
\<close>

definition comp :: "select \<Rightarrow> atomgroup \<Rightarrow> tok list \<Rightarrow> tok res" where
  "comp s ag tokens =
     (if length tokens \<ge> 3 \<and> length tokens mod 2 \<noteq> 1 then Inl (SelectionError [])
      else case tokens of
        [] \<Rightarrow> Inl IndexError
      | t # rest \<Rightarrow>
          bind (evalNumeric s ag t) (\<lambda>r.
            case r of
              None \<Rightarrow> Inl (SelectionError [])
            | Some left \<Rightarrow>
                bind (comp_loop s ag left None rest) (\<lambda>res.
                  case res of None \<Rightarrow> Inl Unmodelled | Some v \<Rightarrow> Inr v)))"

text \<open>
  \<^verbatim>\<open>_sign\<close>: \<^verbatim>\<open>-token\<close> for a minus sign, else the operand itself. The negative of a
  boolean array depends on the NumPy version.
\<close>

definition sign :: "select \<Rightarrow> atomgroup \<Rightarrow> tok list \<Rightarrow> tok res" where
  "sign s ag tokens =
     (case tokens of
        op # t # _ \<Rightarrow>
          bind (evalNumeric s ag t) (\<lambda>r.
            case r of
              None \<Rightarrow> Inl (SelectionError [])
            | Some v \<Rightarrow>
                if op = Str ''-'' then
                  bind (num_of s ag v) (\<lambda>a.
                    case a of
                      Sc x \<Rightarrow> Inr (Flt (- x))
                    | Ar (IntA xs) \<Rightarrow>
                        bind (sequence (map (\<lambda>x. int64 (- x)) xs)) (\<lambda>vs. Inr (Arr (IntA vs)))
                    | Ar (FltA xs) \<Rightarrow> Inr (Arr (FltA (map uminus xs)))
                    | _ \<Rightarrow> Inl Unmodelled)
                else Inr v)
      | _ \<Rightarrow> Inl IndexError)"

subsection \<open>Calls that can write to the atom group\<close>

text \<open>
  A method that can change an array of the atom group returns its result, or the
  exception it raised, with the atom group as it left it.
\<close>

type_synonym 'a st = "atomgroup \<Rightarrow> 'a res \<times> atomgroup"

definition ret :: "'a \<Rightarrow> 'a st" where
  "ret x ag = (Inr x, ag)"

definition raise :: "error \<Rightarrow> 'a st" where
  "raise e ag = (Inl e, ag)"

definition sbind :: "'a st \<Rightarrow> ('a \<Rightarrow> 'b st) \<Rightarrow> 'b st" where
  "sbind m f ag = (case m ag of (Inl e, ag') \<Rightarrow> (Inl e, ag') | (Inr x, ag') \<Rightarrow> f x ag')"

text \<open>A method that only reads the atom group.\<close>

definition reads :: "(atomgroup \<Rightarrow> 'a res) \<Rightarrow> 'a st" where
  "reads f ag = (f ag, ag)"

definition is_array :: "tok \<Rightarrow> bool" where
  "is_array t = (case t of Arr _ \<Rightarrow> True | Col _ \<Rightarrow> True | _ \<Rightarrow> False)"

text \<open>
  \<^verbatim>\<open>np.invert(torf, torf)\<close>: the array is inverted in place, a boolean array by
  negation, an integer array bit by bit; floats and strings raise \<^verbatim>\<open>TypeError\<close>. In
  place of a stored array, that is a write to the atom group. Inverting the selector's own
  index array is outside the fragment.
\<close>

definition invert_array :: "ndarray \<Rightarrow> ndarray res" where
  "invert_array a =
     (case a of
        BoolA xs \<Rightarrow> Inr (BoolA (map Not xs))
      | IntA xs \<Rightarrow> Inr (IntA (map (\<lambda>x. - x - 1) xs))
      | _ \<Rightarrow> Inl TypeError)"

definition invert :: "select \<Rightarrow> tok \<Rightarrow> tok st" where
  "invert s torf ag =
     (case torf of
        Arr a \<Rightarrow> (bind (invert_array a) (\<lambda>b. Inr (Arr b)), ag)
      | Col Idx \<Rightarrow> (Inl Unmodelled, ag)
      | Col r \<Rightarrow>
          (case bind (read_col s ag r) invert_array of
             Inl e \<Rightarrow> (Inl e, ag)
           | Inr b \<Rightarrow> (case write_col ag r b of Inl e \<Rightarrow> (Inl e, ag) | Inr ag' \<Rightarrow> (Inr (Col r), ag')))
      | _ \<Rightarrow> (Inl TypeError, ag))"

text \<open>
  The argument of \<^verbatim>\<open>_evaluate\<close>: one token as it stands (\<^verbatim>\<open>_and\<close> and \<^verbatim>\<open>_or\<close> pass a
  lone string so), or a list of tokens.
\<close>

datatype tokens = One tok | Many "tok list"

type_synonym evaluator = "tokens \<Rightarrow> nat list option \<Rightarrow> tok option st"

text \<open>\<^verbatim>\<open>_not(tokens, evalonly)\<close>; \<open>ev\<close> is \<^verbatim>\<open>self._evaluate\<close>.\<close>

definition not_op :: "evaluator \<Rightarrow> select \<Rightarrow> tok list \<Rightarrow> nat list option \<Rightarrow> tok option st" where
  "not_op ev s tokens evalonly =
     (case tokens of
        op # t # rest \<Rightarrow>
          if is_array t then sbind (invert s t) (\<lambda>v. ret (Some v))
          else sbind (ev (Many (t # rest)) evalonly) (\<lambda>r.
                 case r of
                   None \<Rightarrow> ret None
                 | Some torf \<Rightarrow> sbind (invert s torf) (\<lambda>v. ret (Some v)))
      | _ \<Rightarrow> raise IndexError)"

text \<open>\<^verbatim>\<open>expandBoolean(keyword)\<close>; a keyword of no table is returned as it is.\<close>

definition expandBoolean :: "catalog \<Rightarrow> string \<Rightarrow> tokens" where
  "expandBoolean cat keyword =
     (case map_of (KEYWORD_MAP cat) keyword of
        Some (residue_names, rn_invert, atom_names, an_invert) \<Rightarrow>
          Many ((case atom_names of
                   None \<Rightarrow> []
                 | Some an \<Rightarrow> (if an_invert then [Str NOT] else []) @ [Str ''name''] @ an @
                             (if residue_names \<noteq> None then [Str AND] else [])) @
                (case residue_names of
                   None \<Rightarrow> []
                 | Some rn \<Rightarrow> (if rn_invert then [Str NOT] else []) @ [Str ''resname''] @ map Str rn))
      | None \<Rightarrow>
          (case map_of SECSTR_MAP keyword of
             Some c \<Rightarrow> Many [Str ''secondary'', Str c]
           | None \<Rightarrow> One (Str keyword)))"

text \<open>
  \<^verbatim>\<open>_isValid(token)\<close>; \<^verbatim>\<open>getDataType(token) == bool\<close> holds for boolean user data.
\<close>

definition isValid :: "select \<Rightarrow> atomgroup \<Rightarrow> tokens \<Rightarrow> bool" where
  "isValid s ag token =
     (case token of
        One (Str t) \<Rightarrow> isBooleanKeyword t \<or> (case ag_data ag t of Some (BoolA _) \<Rightarrow> True | _ \<Rightarrow> False)
      | Many (Str tkn # _) \<Rightarrow>
          isValuePairedKeyword tkn \<or> s_kwargs s tkn \<noteq> None \<or> isData ag tkn \<or> tkn = NOT
      | _ \<Rightarrow> False)"

text \<open>The variable \<^verbatim>\<open>previous\<close> of the loops of \<^verbatim>\<open>_and\<close> and \<^verbatim>\<open>_or\<close>.\<close>

datatype previous = PNone | POne tok | PMany "tok list"

text \<open>
  The block that evaluates \<^verbatim>\<open>previous\<close> to \<^verbatim>\<open>torf\<close>, the same four times in the
  source. An array that is not a fresh boolean array (a numeric array, or a stored array
  that \<^verbatim>\<open>selection\<close> would alias) is outside the fragment.
\<close>

definition need_bools :: "tok option \<Rightarrow> bool list st" where
  "need_bools r =
     (case r of
        None \<Rightarrow> raise (SelectionError [])
      | Some (Arr (BoolA xs)) \<Rightarrow> ret xs
      | Some _ \<Rightarrow> raise Unmodelled)"

definition eval_previous ::
  "evaluator \<Rightarrow> select \<Rightarrow> previous \<Rightarrow> nat list option \<Rightarrow> bool list st" where
  "eval_previous ev s prev evalonly =
     (case prev of
        PNone \<Rightarrow> raise (SelectionError [])
      | POne t \<Rightarrow>
          (case t of
             Arr a \<Rightarrow> sbind (reads (\<lambda>ag. restrict a evalonly)) (\<lambda>b. need_bools (Some (Arr b)))
           | Col r \<Rightarrow>
               (case evalonly of
                  None \<Rightarrow> raise Unmodelled
                | Some idx \<Rightarrow>
                    sbind (reads (\<lambda>ag. bind (read_col s ag r) (\<lambda>a. take_arr a idx))) (\<lambda>b.
                      need_bools (Some (Arr b))))
           | _ \<Rightarrow>
               (\<lambda>ag. if \<not> isValid s ag (One t) then raise (SelectionError []) ag
                      else sbind (ev (One t) evalonly) need_bools ag))
      | PMany ts \<Rightarrow>
          (\<lambda>ag. if \<not> isValid s ag (Many ts) then raise (SelectionError []) ag
                 else sbind (ev (Many ts) evalonly) need_bools ag))"

text \<open>
  A token that is not an operator joins \<^verbatim>\<open>previous\<close>: a string becomes a list of
  two, a list grows, anything else has no \<^verbatim>\<open>append\<close>.
\<close>

definition append_previous :: "previous \<Rightarrow> tok \<Rightarrow> previous res" where
  "append_previous prev current =
     (case prev of
        PNone \<Rightarrow> Inr (POne current)
      | POne (Str x) \<Rightarrow> Inr (PMany [Str x, current])
      | POne _ \<Rightarrow> Inl AttributeError
      | PMany ts \<Rightarrow> Inr (PMany (ts @ [current])))"

text \<open>
  The loop of \<^verbatim>\<open>_and\<close> over \<^verbatim>\<open>tokens[0]\<close>, then the last operand.
  \<^verbatim>\<open>selection\<close> and \<^verbatim>\<open>evalonly\<close> are set together. Comparing an array with the
  operator string is outside the fragment.
\<close>

fun and_loop ::
  "evaluator \<Rightarrow> select \<Rightarrow> previous \<Rightarrow> (bool list \<times> nat list) option \<Rightarrow> tok list \<Rightarrow> tok st" where
  "and_loop ev s prev sel [] =
     sbind (eval_previous ev s prev (map_option snd sel)) (\<lambda>torf.
       case sel of
         None \<Rightarrow> ret (Arr (BoolA torf))
       | Some (selection, evalonly) \<Rightarrow>
           sbind (reads (\<lambda>ag. put_array selection evalonly torf)) (\<lambda>selection'.
             ret (Arr (BoolA selection'))))"
| "and_loop ev s prev sel (current # rest) =
     (if prev = PNone then and_loop ev s (POne current) sel rest
      else if is_array current then raise Unmodelled
      else if current = Str AND then
        sbind (eval_previous ev s prev (map_option snd sel)) (\<lambda>torf.
          case sel of
            None \<Rightarrow> and_loop ev s PNone (Some (torf, nonzero torf)) rest
          | Some (selection, evalonly) \<Rightarrow>
              sbind (reads (\<lambda>ag. put_array selection evalonly torf)) (\<lambda>selection'.
              sbind (reads (\<lambda>ag. take_mask evalonly torf)) (\<lambda>evalonly'.
                and_loop ev s PNone (Some (selection', evalonly')) rest)))
      else sbind (reads (\<lambda>ag. append_previous prev current)) (\<lambda>prev'. and_loop ev s prev' sel rest))"

text \<open>
  \<^verbatim>\<open>_and(selstr, location, tokens)\<close>, with \<^verbatim>\<open>tokens[0]\<close> as the argument. Iterating
  over a string instead of a list gives its characters.
\<close>

definition and_op :: "evaluator \<Rightarrow> select \<Rightarrow> tokens \<Rightarrow> tok st" where
  "and_op ev s tokens =
     (case tokens of
        Many ts \<Rightarrow> and_loop ev s PNone None ts
      | One (Str str) \<Rightarrow> and_loop ev s PNone None (map (\<lambda>c. Str [c]) str)
      | One _ \<Rightarrow> raise Unmodelled)"

text \<open>The loop of \<^verbatim>\<open>_or\<close>, then the last operand.\<close>

fun or_loop ::
  "evaluator \<Rightarrow> select \<Rightarrow> previous \<Rightarrow> (bool list \<times> nat list) option \<Rightarrow> tok list \<Rightarrow> tok st" where
  "or_loop ev s prev sel [] =
     sbind (eval_previous ev s prev (map_option snd sel)) (\<lambda>torf.
       case sel of
         None \<Rightarrow> raise TypeError
       | Some (selection, evalonly) \<Rightarrow>
           sbind (reads (\<lambda>ag. take_mask evalonly torf)) (\<lambda>idx.
           sbind (reads (\<lambda>ag. put_const selection idx True)) (\<lambda>selection'.
             ret (Arr (BoolA selection')))))"
| "or_loop ev s prev sel (current # rest) =
     (if prev = PNone then or_loop ev s (POne current) sel rest
      else if is_array current then raise Unmodelled
      else if current = Str OR then
        sbind (eval_previous ev s prev (map_option snd sel)) (\<lambda>torf.
          case sel of
            None \<Rightarrow> or_loop ev s PNone (Some (torf, nonzero (map Not torf))) rest
          | Some (selection, evalonly) \<Rightarrow>
              sbind (reads (\<lambda>ag. take_mask evalonly torf)) (\<lambda>idx.
              sbind (reads (\<lambda>ag. put_const selection idx True)) (\<lambda>selection'.
              sbind (reads (\<lambda>ag. take_idx evalonly (nonzero torf))) (\<lambda>evalonly'.
                or_loop ev s PNone (Some (selection', evalonly')) rest))))
      else sbind (reads (\<lambda>ag. append_previous prev current)) (\<lambda>prev'. or_loop ev s prev' sel rest))"

definition or_op :: "evaluator \<Rightarrow> select \<Rightarrow> tok list \<Rightarrow> tok st" where
  "or_op ev s tokens = or_loop ev s PNone None tokens"

text \<open>\<^verbatim>\<open>_evalBoolean(keyword, evalonly)\<close>\<close>

definition evalBoolean :: "evaluator \<Rightarrow> select \<Rightarrow> string \<Rightarrow> nat list option \<Rightarrow> tok option st" where
  "evalBoolean ev s keyword evalonly =
     (let n_atoms = (case evalonly of None \<Rightarrow> s_n_atoms s | Some idx \<Rightarrow> length idx) in
      if keyword = ''all'' then ret (Some (Arr (BoolA (replicate n_atoms True))))
      else if keyword = ''none'' then ret (Some (Arr (BoolA (replicate n_atoms False))))
      else sbind (and_op ev s (expandBoolean (s_catalog s) keyword)) (\<lambda>torf.
           sbind (reads (\<lambda>ag. bind (tok_array s ag torf) (\<lambda>a. restrict a evalonly))) (\<lambda>a.
             ret (Some (Arr a)))))"

text \<open>
  The body of \<^verbatim>\<open>_evaluate(tokens, evalonly)\<close>; \<open>ev\<close> stands for the calls of
  \<^verbatim>\<open>self._evaluate\<close> further down (through \<^verbatim>\<open>_not\<close> and through
  \<^verbatim>\<open>_evalBoolean\<close> and \<^verbatim>\<open>_and\<close>). An array is not hashable, so looking it up in a
  keyword set raises \<^verbatim>\<open>TypeError\<close>.
\<close>

definition evaluate_body :: "evaluator \<Rightarrow> select \<Rightarrow> tokens \<Rightarrow> nat list option \<Rightarrow> tok option st" where
  "evaluate_body ev s tokens evalonly =
     (case tokens of
        One (Str t) \<Rightarrow>
          (\<lambda>ag. if isBooleanKeyword t then evalBoolean ev s t evalonly ag
                 else if isData ag t then reads (\<lambda>ag. evalUserdata s ag t None evalonly) ag
                 else ret None ag)
      | One (Arr a) \<Rightarrow> ret (Some (Arr a))
      | One (Col r) \<Rightarrow> ret (Some (Col r))
      | One (Flt x) \<Rightarrow> ret (Some (Flt x))
      | One _ \<Rightarrow> raise TypeError
      | Many [] \<Rightarrow> raise IndexError
      | Many [keyword] \<Rightarrow>
          (case keyword of
             Str t \<Rightarrow>
               (\<lambda>ag. if isBooleanKeyword t then evalBoolean ev s t evalonly ag
                      else if isNumericKeyword t then reads (\<lambda>ag. evalNumeric s ag keyword) ag
                      else if isData ag t then reads (\<lambda>ag. evalUserdata s ag t None evalonly) ag
                      else (case py_float t of
                              Inr x \<Rightarrow> ret (Some (Flt x)) ag
                            | Inl ValueError \<Rightarrow> ret None ag
                            | Inl e \<Rightarrow> raise e ag))
           | Flt x \<Rightarrow> ret (Some (Flt x))
           | PyBool b \<Rightarrow> ret (Some (Flt (if b then 1 else 0)))
           | _ \<Rightarrow> raise TypeError)
      | Many (keyword # values) \<Rightarrow>
          (case keyword of
             Str t \<Rightarrow>
               (\<lambda>ag. if isAlnumKeyword t then reads (\<lambda>ag. evalAlnum s ag t values evalonly) ag
                      else if t = ''resnum'' \<or> t = ''resid'' then reads (\<lambda>ag. resnum s ag values evalonly) ag
                      else if t = ''index'' then reads (\<lambda>ag. index s ag values evalonly) ag
                      else if t = ''serial'' then reads (\<lambda>ag. serial s ag values evalonly) ag
                      else if isFloatKeyword t \<or> isIntKeyword t
                        then reads (\<lambda>ag. evalFloat s ag t values evalonly) ag
                      else if t = NOT then not_op ev s (keyword # values) evalonly ag
                      else if isData ag t then reads (\<lambda>ag. evalUserdata s ag t (Some values) evalonly) ag
                      else ret None ag)
           | Arr a \<Rightarrow> raise TypeError
           | Col r \<Rightarrow> raise TypeError
           | _ \<Rightarrow> ret None))"

text \<open>
  \<^verbatim>\<open>_evaluate\<close> itself, by the depth of recursion that is left: Python raises
  \<^verbatim>\<open>RuntimeError\<close> (maximum recursion depth exceeded) when the expansion of boolean
  keywords does not end.
\<close>

primrec evaluate :: "nat \<Rightarrow> select \<Rightarrow> tokens \<Rightarrow> nat list option \<Rightarrow> tok option st" where
  "evaluate 0 s tokens evalonly = raise RuntimeError"
| "evaluate (Suc depth) s tokens evalonly = evaluate_body (evaluate depth s) s tokens evalonly"

subsection \<open>Distance based selection\<close>

text \<open>
  Modelled from the spec: the spatial index (\<^verbatim>\<open>getKDTree\<close> of \<^verbatim>\<open>prody.measure\<close> and
  \<^verbatim>\<open>_getKDTree\<close> of the atom classes, over Biopython's KDTree) is not among the
  sources. \<^verbatim>\<open>Index.query(point, radius) -> indices\<close>: \<^verbatim>\<open>search(center, radius)\<close>
  followed by \<^verbatim>\<open>get_indices()\<close> gives the indices of the points of the tree within
  the radius of the center, the radius compared inclusively.
\<close>

definition dist2 :: "xyz \<Rightarrow> xyz \<Rightarrow> rat" where
  "dist2 p q =
     (case (p, q) of ((x, y, z), (x', y', z')) \<Rightarrow> (x - x')\<^sup>2 + (y - y')\<^sup>2 + (z - z')\<^sup>2)"

definition near :: "rat \<Rightarrow> xyz \<Rightarrow> xyz \<Rightarrow> bool" where
  "near r p q = (0 \<le> r \<and> dist2 p q \<le> r\<^sup>2)"

definition kd_search :: "xyz list \<Rightarrow> xyz \<Rightarrow> rat \<Rightarrow> nat list" where
  "kd_search pts center r = filter (\<lambda>i. near r (pts ! i) center) [0..<length pts]"

text \<open>
  The branch of \<^verbatim>\<open>_within\<close> for \<^verbatim>\<open>other or len(which) < 20\<close>: \<open>tree\<close> are the
  points of \<^verbatim>\<open>self._atoms._getKDTree()\<close>, all coordinates of the atom group, and
  \<open>n\<close> is \<^verbatim>\<open>self._ag.numAtoms()\<close>.
\<close>

fun search_all :: "xyz list \<Rightarrow> xyz list \<Rightarrow> rat \<Rightarrow> bool list \<Rightarrow> nat list \<Rightarrow> bool list res" where
  "search_all tree coords r torf [] = Inr torf"
| "search_all tree coords r torf (i # which) =
     (if i < length coords
      then bind (put_const torf (kd_search tree (coords ! i) r) True) (\<lambda>t.
             search_all tree coords r t which)
      else Inl IndexError)"

definition within_sparse ::
  "nat \<Rightarrow> xyz list \<Rightarrow> nat list option \<Rightarrow> xyz list \<Rightarrow> nat list \<Rightarrow> rat \<Rightarrow> bool \<Rightarrow> bool list res" where
  "within_sparse n tree indices coords which r exclude =
     bind (search_all tree coords r (replicate n False) which) (\<lambda>torf.
     bind (case indices of None \<Rightarrow> Inr torf | Some idx \<Rightarrow> take_idx torf idx) (\<lambda>torf.
       if exclude then put_const torf which False else Inr torf))"

text \<open>
  The other branch: \<open>n\<close> is \<^verbatim>\<open>self._n_atoms\<close>, the tree is built over
  \<^verbatim>\<open>coords[which]\<close>, and every atom outside \<^verbatim>\<open>which\<close> is searched for.
\<close>

definition within_dense :: "nat \<Rightarrow> xyz list \<Rightarrow> nat list \<Rightarrow> rat \<Rightarrow> bool \<Rightarrow> bool list res" where
  "within_dense n coords which r exclude =
     bind (put_const (replicate n True) which False) (\<lambda>torf.
       let check = nonzero torf in
     bind (take_idx coords check) (\<lambda>cxyz.
     bind (take_idx coords which) (\<lambda>tree.
       let select = filter (\<lambda>i. kd_search tree (cxyz ! i) r \<noteq> []) [0..<length cxyz] in
     bind (take_idx check select) (\<lambda>hits.
     bind (put_const (replicate n False) hits True) (\<lambda>torf.
       if \<not> exclude then put_const torf which True else Inr torf)))))"

text \<open>
  \<^verbatim>\<open>_within(tokens, exclude)\<close>. The operand is a nested selection, or the name of a
  coordinate array among the keyword arguments of the call.
\<close>

definition within_radius :: "tok \<Rightarrow> rat option res" where
  "within_radius op =
     (case op of
        Str o' \<Rightarrow>
          (case split_ws o' of
             _ # r # _ \<Rightarrow>
               (case py_float r of Inr x \<Rightarrow> Inr (Some x) | Inl Unmodelled \<Rightarrow> Inl Unmodelled
                | Inl _ \<Rightarrow> Inr None)
           | _ \<Rightarrow> Inr None)
      | _ \<Rightarrow> Inr None)"

text \<open>The case of a coordinate array among the keyword arguments: \<^verbatim>\<open>other = True\<close>.\<close>

definition within_other :: "select \<Rightarrow> atomgroup \<Rightarrow> xyz list \<Rightarrow> rat \<Rightarrow> tok option res" where
  "within_other s ag coords r =
     (case ag_coords ag of
        None \<Rightarrow> Inl AttributeError
      | Some tree \<Rightarrow>
          bind (within_sparse (ag_n_atoms ag) tree (s_indices s) coords [0..<length coords] r False)
            (\<lambda>torf. Inr (Some (Arr (BoolA torf)))))"

text \<open>The case of a nested selection \<open>w\<close>: its atoms are the reference atoms.\<close>

definition within_nested :: "select \<Rightarrow> atomgroup \<Rightarrow> tok \<Rightarrow> rat \<Rightarrow> bool \<Rightarrow> tok option res" where
  "within_nested s ag w r exclude =
     bind (deref s ag w) (\<lambda>a.
       case a of
         Some (BoolA bools) \<Rightarrow>
           bind (getCoords s ag) (\<lambda>coords.
             if length (nonzero bools) < 20 then
               (case ag_coords ag of
                  None \<Rightarrow> Inl AttributeError
                | Some tree \<Rightarrow>
                    bind (within_sparse (ag_n_atoms ag) tree (s_indices s) coords (nonzero bools)
                            r exclude)
                      (\<lambda>torf. Inr (Some (Arr (BoolA torf)))))
             else
               bind (within_dense (s_n_atoms s) coords (nonzero bools) r exclude)
                 (\<lambda>torf. Inr (Some (Arr (BoolA torf)))))
       | _ \<Rightarrow> Inr None)"

definition within_op :: "evaluator \<Rightarrow> select \<Rightarrow> tok list \<Rightarrow> bool \<Rightarrow> tok option st" where
  "within_op ev s tokens exclude =
     (case tokens of
        op # t # rest \<Rightarrow>
          sbind (reads (\<lambda>ag. within_radius op)) (\<lambda>wr.
            case wr of
              None \<Rightarrow> ret None
            | Some r \<Rightarrow>
                sbind (if is_array t then ret (Some t) else ev (Many (t # rest)) None) (\<lambda>which.
                  case which of
                    None \<Rightarrow>
                      (case (case t of Str k \<Rightarrow> s_kwargs s k | _ \<Rightarrow> None) of
                         None \<Rightarrow> ret None
                       | Some coords \<Rightarrow> reads (\<lambda>ag. within_other s ag coords r))
                  | Some w \<Rightarrow> reads (\<lambda>ag. within_nested s ag w r exclude)))
      | [op] \<Rightarrow>
          sbind (reads (\<lambda>ag. within_radius op)) (\<lambda>wr.
            case wr of None \<Rightarrow> ret None | Some r \<Rightarrow> raise IndexError)
      | [] \<Rightarrow> raise IndexError)"

text \<open>
  \<^verbatim>\<open>_unary\<close>. \<^verbatim>\<open>_sameas\<close> needs the hierarchical view of the atom group, which is
  outside the fragment.
\<close>

definition unary :: "evaluator \<Rightarrow> select \<Rightarrow> tok list \<Rightarrow> tok st" where
  "unary ev s tokens =
     (case tokens of
        [] \<Rightarrow> raise IndexError
      | Str op # _ \<Rightarrow>
          sbind (if op = NOT then not_op ev s tokens None
                 else if startswith op ''same'' then raise Unmodelled
                 else within_op ev s tokens (startswith op ''exwithin''))
            (\<lambda>result. case result of None \<Rightarrow> raise (SelectionError []) | Some v \<Rightarrow> ret v)
      | _ \<Rightarrow> raise AttributeError)"

text \<open>\<^verbatim>\<open>_defaultAction(tokens)\<close>\<close>

definition defaultAction :: "evaluator \<Rightarrow> select \<Rightarrow> tok list \<Rightarrow> tok st" where
  "defaultAction ev s tokens =
     (case tokens of
        [] \<Rightarrow> raise IndexError
      | t # _ \<Rightarrow>
          if is_array t then ret t
          else sbind (ev (Many tokens) None) (\<lambda>torf.
                 case torf of None \<Rightarrow> raise (SelectionError []) | Some v \<Rightarrow> ret v))"

subsection \<open>The parse\<close>

text \<open>
  The grammar is pyparsing's \<^verbatim>\<open>operatorPrecedence\<close> over words; pyparsing is not part
  of the repository. What it does with the selector's parse actions is fixed by the
  shape of the parse, which is the input here: a run of words, quoted literals and
  compiled patterns (no action of its own: the tokens join the enclosing group), a
  parenthesised expression (the action \<^verbatim>\<open>_defaultAction\<close>), an operator with one
  operand, and a chain of operands joined by binary operators of one level (one group,
  one call of the level's action). An action's result takes the place of its group.
  \<^verbatim>\<open>_func\<close> and \<^verbatim>\<open>_pow\<close> are outside the fragment.
\<close>

datatype level = LSign | LMul | LAdd | LComp | LUnary | LAnd | LOr

datatype ptree =
    Words "tok list"
  | Paren ptree
  | Prefix level string ptree
  | Chain level ptree "(string \<times> ptree) list"

definition action :: "evaluator \<Rightarrow> select \<Rightarrow> level \<Rightarrow> tok list \<Rightarrow> tok st" where
  "action ev s l tokens =
     (case l of
        LSign \<Rightarrow> reads (\<lambda>ag. sign s ag tokens)
      | LMul \<Rightarrow> reads (\<lambda>ag. mul s ag tokens)
      | LAdd \<Rightarrow> reads (\<lambda>ag. add s ag tokens)
      | LComp \<Rightarrow> reads (\<lambda>ag. comp s ag tokens)
      | LUnary \<Rightarrow> unary ev s tokens
      | LAnd \<Rightarrow> and_op ev s (Many tokens)
      | LOr \<Rightarrow> or_op ev s tokens)"

text \<open>
  The tokens a part of the parse leaves to its enclosing group, the actions run as the
  parts are matched, left to right.
\<close>

fun run :: "evaluator \<Rightarrow> select \<Rightarrow> ptree \<Rightarrow> tok list st"
  and run_rest :: "evaluator \<Rightarrow> select \<Rightarrow> (string \<times> ptree) list \<Rightarrow> tok list st" where
  "run ev s (Words ws) = ret ws"
| "run ev s (Paren t) =
     sbind (run ev s t) (\<lambda>ts. sbind (defaultAction ev s ts) (\<lambda>r. ret [r]))"
| "run ev s (Prefix l op t) =
     sbind (run ev s t) (\<lambda>ts. sbind (action ev s l (Str op # ts)) (\<lambda>r. ret [r]))"
| "run ev s (Chain l t rest) =
     sbind (run ev s t) (\<lambda>ts. sbind (run_rest ev s rest) (\<lambda>us.
       sbind (action ev s l (ts @ us)) (\<lambda>r. ret [r])))"
| "run_rest ev s [] = ret []"
| "run_rest ev s ((op, t) # rest) =
     sbind (run ev s t) (\<lambda>ts. sbind (run_rest ev s rest) (\<lambda>us. ret (Str op # ts @ us)))"

subsection \<open>The selection string\<close>

text \<open>\<^verbatim>\<open>while old in selstr: selstr = selstr.replace(old, new)\<close>, for the three operators.\<close>

function replace_and :: "string \<Rightarrow> string" where
  "replace_and s = (if contains '' and '' s then replace_and (replace '' and '' '' &&& '' s) else s)"
  by pat_completeness auto

function replace_or :: "string \<Rightarrow> string" where
  "replace_or s = (if contains '' or '' s then replace_or (replace '' or '' '' || '' s) else s)"
  by pat_completeness auto

function replace_not :: "string \<Rightarrow> string" where
  "replace_not s = (if contains '' not '' s then replace_not (replace '' not '' '' !!! '' s) else s)"
  by pat_completeness auto

lemma count_take_drop: "count_list s c = count_list (take n s) c + count_list (drop n s) c"
proof -
  have "count_list s c = count_list (take n s @ drop n s) c" by simp
  also have "\<dots> = count_list (take n s) c + count_list (drop n s) c" by (rule count_list_append)
  finally show ?thesis .
qed

lemma count_replace_le:
  "count_list new c \<le> count_list old c \<Longrightarrow> count_list (replace old new s) c \<le> count_list s c"
proof (induction old new s rule: replace.induct)
  case (1 old new)
  then show ?case by simp
next
  case (2 old new x xs)
  show ?case
  proof (cases "old \<noteq> [] \<and> startswith (x # xs) old")
    case True
    then have t: "take (length old) (x # xs) = old" by (simp add: startswith_def)
    have "count_list (replace old new (drop (length old) (x # xs))) c
        \<le> count_list (drop (length old) (x # xs)) c"
      using 2(1) True 2(3) by simp
    moreover have "count_list (x # xs) c
        = count_list old c + count_list (drop (length old) (x # xs)) c"
      using count_take_drop [of "x # xs" c "length old"] t by simp
    moreover have "replace old new (x # xs) = new @ replace old new (drop (length old) (x # xs))"
      using True by simp
    ultimately show ?thesis using 2(3) by simp
  next
    case False
    then have "replace old new (x # xs) = x # replace old new xs" by auto
    moreover have "count_list (replace old new xs) c \<le> count_list xs c"
      using 2(2) False 2(3) by simp
    ultimately show ?thesis by simp
  qed
qed

lemma count_replace_less:
  "count_list new c < count_list old c \<Longrightarrow> contains old s \<Longrightarrow>
     count_list (replace old new s) c < count_list s c"
proof (induction old new s rule: replace.induct)
  case (1 old new)
  then show ?case by auto
next
  case (2 old new x xs)
  have ne: "old \<noteq> []" using 2(3) by auto
  show ?case
  proof (cases "startswith (x # xs) old")
    case True
    then have t: "take (length old) (x # xs) = old" by (simp add: startswith_def)
    have "count_list (replace old new (drop (length old) (x # xs))) c
        \<le> count_list (drop (length old) (x # xs)) c"
      using 2(3) by (intro count_replace_le) simp
    moreover have "count_list (x # xs) c
        = count_list old c + count_list (drop (length old) (x # xs)) c"
      using count_take_drop [of "x # xs" c "length old"] t by simp
    moreover have "replace old new (x # xs) = new @ replace old new (drop (length old) (x # xs))"
      using True ne by simp
    ultimately show ?thesis using 2(3) by simp
  next
    case False
    then have "contains old xs" using 2(4) by simp
    then have "count_list (replace old new xs) c < count_list xs c"
      using 2(2) False ne 2(3) by simp
    moreover have "replace old new (x # xs) = x # replace old new xs" using False by auto
    ultimately show ?thesis by simp
  qed
qed

termination replace_and
  by (relation "measure (\<lambda>s. count_list s CHR ''a'')") (simp_all add: count_replace_less)

termination replace_or
  by (relation "measure (\<lambda>s. count_list s CHR ''o'')") (simp_all add: count_replace_less)

termination replace_not
  by (relation "measure (\<lambda>s. count_list s CHR ''n'')") (simp_all add: count_replace_less)

text \<open>
  \<^verbatim>\<open>_prepareSelstr\<close>: the operator words become \<^verbatim>\<open>&&&\<close>, \<^verbatim>\<open>||\<close> and \<^verbatim>\<open>!!!\<close>, and
  each macro is replaced by its definition in parentheses, once, in the order of the
  dict.
\<close>

definition expand_macro :: "string \<Rightarrow> string \<times> string \<Rightarrow> string" where
  "expand_macro selstr m =
     (case m of (macro, body) \<Rightarrow>
        let selstr = replace ('' '' @ macro @ '' '') ('' ('' @ body @ '') '') selstr;
            selstr = replace (''('' @ macro @ '' '') (''(('' @ body @ '') '') selstr
        in replace ('' '' @ macro @ '')'') ('' ('' @ body @ ''))'') selstr)"

definition prepareSelstr :: "(string \<times> string) list \<Rightarrow> string \<Rightarrow> string" where
  "prepareSelstr MACROS selstr0 =
     (let selstr = '' '' @ selstr0 @ '' '';
          selstr = replace '')and('' '')&&&('' selstr;
          selstr = replace '' and('' '' &&&('' selstr;
          selstr = replace '')and '' '')&&& '' selstr;
          selstr = replace_and selstr;
          selstr = replace '')or('' '')||('' selstr;
          selstr = replace '' or('' '' ||('' selstr;
          selstr = replace '')or '' '')|| '' selstr;
          selstr = replace_or selstr;
          selstr = replace ''(not '' ''(!!! '' selstr;
          selstr = replace '' not('' '' !!!('' selstr;
          selstr = replace_not selstr;
          selstr = foldl expand_macro selstr MACROS
      in strip selstr)"

text \<open>
  \<^verbatim>\<open>_evalSelstr\<close>. A single word is evaluated without the parser. \<open>tokenizer\<close> is
  \<^verbatim>\<open>self._tokenizer.parseString(selstr, parseAll=True)\<close>: the parse of the prepared
  string, \<open>None\<close> for a \<^verbatim>\<open>ParseException\<close>; the parse actions run on it, the last of
  them \<^verbatim>\<open>_defaultAction\<close> on the whole.
\<close>

definition evalSelstr ::
  "evaluator \<Rightarrow> (string \<Rightarrow> ptree option) \<Rightarrow> (string \<times> string) list \<Rightarrow> select \<Rightarrow> string
     \<Rightarrow> tok option st" where
  "evalSelstr ev tokenizer MACROS s selstr0 =
     (let selstr = strip selstr0 in
      if length (split_ws selstr) = 1 \<and> \<not> contains ''('' selstr \<and> \<not> contains '')'' selstr \<and>
         \<not> isMacro MACROS selstr
      then (\<lambda>ag.
        if isBooleanKeyword selstr then evalBoolean ev s selstr None ag
        else if isData ag selstr then reads (\<lambda>ag. evalUserdata s ag selstr None None) ag
        else if isValuePairedKeyword selstr then raise (SelectionError ''must be followed by values.'') ag
        else raise (SelectionError ''is not a user set atom group attribute either.'') ag)
      else
        case tokenizer (prepareSelstr MACROS selstr0) of
          None \<Rightarrow> raise (SelectionError ''^ parsing the rest failed.'')
        | Some t \<Rightarrow>
            sbind (run ev s t) (\<lambda>ts. sbind (defaultAction ev s ts) (\<lambda>r. ret (Some r))))"

subsection \<open>The public methods\<close>

text \<open>
  The \<^verbatim>\<open>atoms\<close> argument: an atom group, or a subset of one (\<^verbatim>\<open>Selection\<close>, \<^verbatim>\<open>Atom\<close>
  and the other pointer classes) with the indices \<^verbatim>\<open>atoms.getIndices()\<close>.
\<close>

datatype atomic = AtomGroup atomgroup | Subset atomgroup "nat list"

fun numAtoms :: "atomic \<Rightarrow> nat" where
  "numAtoms (AtomGroup ag) = ag_n_atoms ag"
| "numAtoms (Subset ag indices) = length indices"

fun getAtomGroup :: "atomic \<Rightarrow> atomgroup" where
  "getAtomGroup (AtomGroup ag) = ag"
| "getAtomGroup (Subset ag indices) = ag"

text \<open>
  The module and its selector outside a call: the keyword tables, the macros, the regular
  expression engine, the tokenizer and the recursion limit of the interpreter.
\<close>

record module =
  m_catalog :: catalog
  m_macros :: "(string \<times> string) list"
  m_re_match :: "string \<Rightarrow> string \<Rightarrow> bool"
  m_tokenizer :: "string \<Rightarrow> ptree option"
  m_depth :: nat

text \<open>
  \<^verbatim>\<open>getBoolArray(atoms, selstr, **kwargs)\<close>: the boolean array, or the exception, and
  the atom group after the call. The result must be an array of booleans.
\<close>

definition getBoolArray ::
  "module \<Rightarrow> atomic \<Rightarrow> string \<Rightarrow> (string \<Rightarrow> xyz list option) \<Rightarrow> bool list res \<times> atomgroup" where
  "getBoolArray m atoms selstr kwargs =
     (let s = \<lparr>s_catalog = m_catalog m, s_re_match = m_re_match m,
               s_indices = (case atoms of AtomGroup ag \<Rightarrow> None | Subset ag idx \<Rightarrow> Some idx),
               s_n_atoms = numAtoms atoms, s_kwargs = kwargs\<rparr>
      in case evalSelstr (evaluate (m_depth m) s) (m_tokenizer m) (m_macros m) s selstr
                (getAtomGroup atoms) of
           (Inl e, ag) \<Rightarrow> (Inl e, ag)
         | (Inr torf, ag) \<Rightarrow>
             (case torf of
                Some (Arr (BoolA xs)) \<Rightarrow> (Inr xs, ag)
              | Some (Col r) \<Rightarrow>
                  (case read_col s ag r of
                     Inr (BoolA xs) \<Rightarrow> (Inr xs, ag)
                   | Inr _ \<Rightarrow> (Inl (SelectionError []), ag)
                   | Inl e \<Rightarrow> (Inl e, ag))
              | _ \<Rightarrow> (Inl (SelectionError []), ag)))"

text \<open>\<^verbatim>\<open>getIndices(atoms, selstr, **kwargs)\<close>: \<^verbatim>\<open>torf.nonzero()[0]\<close>\<close>

definition getIndices ::
  "module \<Rightarrow> atomic \<Rightarrow> string \<Rightarrow> (string \<Rightarrow> xyz list option) \<Rightarrow> nat list res \<times> atomgroup" where
  "getIndices m atoms selstr kwargs =
     (case getBoolArray m atoms selstr kwargs of
        (Inl e, ag) \<Rightarrow> (Inl e, ag)
      | (Inr torf, ag) \<Rightarrow> (Inr (nonzero torf), ag))"

subsection \<open>The values of a number range\<close>

text \<open>
  The vocabulary of the statements about \<^verbatim>\<open>resnum\<close>. The residue numbers of the atoms of
  a collection, in its order: those of the atom group, or \<^verbatim>\<open>resnums[indices]\<close>.
\<close>

fun resnums :: "atomic \<Rightarrow> int list option" where
  "resnums (AtomGroup ag) =
     (case ag_fields ag ''resnum'' of
        Some (IntA rs) \<Rightarrow> if length rs = ag_n_atoms ag then Some rs else None
      | _ \<Rightarrow> None)"
| "resnums (Subset ag idx) =
     (case ag_fields ag ''resnum'' of
        Some (IntA rs) \<Rightarrow> if \<forall>i \<in> set idx. i < length rs then Some (map ((!) rs) idx) else None
      | _ \<Rightarrow> None)"

text \<open>
  The residue numbers an item of a range stands for: a number itself; \<^verbatim>\<open>a to b\<close> the
  numbers from \<open>a\<close> to \<open>b\<close>, both included, compared as floats; \<^verbatim>\<open>a:b\<close> the integers from
  \<open>a\<close> up to \<open>b\<close>, without \<open>b\<close>; \<^verbatim>\<open>a:b:c\<close> those of \<^verbatim>\<open>range(a, b, c)\<close>.
\<close>

fun in_item :: "numitem \<Rightarrow> int \<Rightarrow> bool" where
  "in_item (NInt i) r = (r = i)"
| "in_item (NFlt x) r = (of_int r = x)"
| "in_item (NList a b) r = (a \<le> of_int r \<and> of_int r \<le> b)"
| "in_item (NTuple2 a b) r = (a \<le> r \<and> r < b)"
| "in_item (NTuple3 a b c) r = (case py_range a b c of Inr is \<Rightarrow> r \<in> set is | Inl e \<Rightarrow> False)"
| "in_item (NStr str) r = False"

text \<open>An item with a float in it, and an item that is a number or a range with a step.\<close>

fun float_item :: "numitem \<Rightarrow> bool" where
  "float_item (NFlt x) = True"
| "float_item (NList a b) = True"
| "float_item _ = False"

fun plain_item :: "numitem \<Rightarrow> bool" where
  "plain_item (NStr str) = False"
| "plain_item (NTuple3 a b c) = (c \<noteq> 0)"
| "plain_item _ = True"

text \<open>The selector of a call of \<^verbatim>\<open>getBoolArray\<close>.\<close>

abbreviation selector :: "module \<Rightarrow> atomic \<Rightarrow> (string \<Rightarrow> xyz list option) \<Rightarrow> select" where
  "selector m atoms kwargs \<equiv>
     \<lparr>s_catalog = m_catalog m, s_re_match = m_re_match m,
      s_indices = (case atoms of AtomGroup ag \<Rightarrow> None | Subset ag idx \<Rightarrow> Some idx),
      s_n_atoms = numAtoms atoms, s_kwargs = kwargs\<rparr>"

subsection \<open>Example inputs\<close>

text \<open>
  An atom group of three atoms with a boolean user data array, and a module whose
  tokenizer knows the parses of the selection strings used below.
\<close>

definition example_ag :: atomgroup where
  "example_ag =
     \<lparr>ag_n_atoms = 3,
      ag_coords = Some [(0, 0, 0), (1, 0, 0), (3, 0, 0)],
      ag_fields = (\<lambda>k.
        if k = ''resnum'' then Some (IntA [5, 7, 9])
        else if k = ''name'' then Some (StrA [''N'', ''CA'', ''O''])
        else if k = ''resname'' then Some (StrA [''ALA'', ''ALA'', ''HOH''])
        else None),
      ag_data = (\<lambda>k. if k = ''flag'' then Some (BoolA [True, False, True]) else None)\<rparr>"

definition example_tokenizer :: "string \<Rightarrow> ptree option" where
  "example_tokenizer selstr =
     (if selstr = ''index < 5'' then
        Some (Chain LComp (Words [Str ''index'']) [(''<'', Words [Str ''5''])])
      else if selstr = ''none || none || all'' then
        Some (Chain LOr (Words [Str ''none'']) [(OR, Words [Str ''none'']), (OR, Words [Str ''all''])])
      else if selstr = ''(!!! resnum) < 0'' then
        Some (Chain LComp (Paren (Prefix LUnary NOT (Words [Str ''resnum''])))
                [(''<'', Words [Str ''0''])])
      else if selstr = ''resnum 5 10 to 15'' then
        Some (Words [Str ''resnum'', Str ''5'', Str ''10'', Str ''to'', Str ''15''])
      else if selstr = ''resnum 10:15'' then Some (Words [Str ''resnum'', Str ''10:15''])
      else if selstr = ''resnum 1:10:2'' then Some (Words [Str ''resnum'', Str ''1:10:2''])
      else if selstr = ''resnum 10.7:15.2'' then Some (Words [Str ''resnum'', Str ''10.7:15.2''])
      else if selstr = ''resnum 9.5 to 14.5'' then
        Some (Words [Str ''resnum'', Str ''9.5'', Str ''to'', Str ''14.5''])
      else if selstr = ''within 1 of name N'' then
        Some (Prefix LUnary ''within 1 of'' (Words [Str ''name'', Str ''N'']))
      else if selstr = ''exwithin 1 of name N'' then
        Some (Prefix LUnary ''exwithin 1 of'' (Words [Str ''name'', Str ''N'']))
      else if selstr = ''x / 0 < 1'' then
        Some (Chain LComp (Chain LMul (Words [Str ''x'']) [(''/'', Words [Str ''0''])])
                [(''<'', Words [Str ''1''])])
      else if selstr = ''x / 1e-400 < 1'' then
        Some (Chain LComp (Chain LMul (Words [Str ''x'']) [(''/'', Words [Str ''1e-400''])])
                [(''<'', Words [Str ''1''])])
      else if selstr = ''x / (0.3 - 0.1 - 0.2) < 1'' then
        Some (Chain LComp
                (Chain LMul (Words [Str ''x''])
                   [(''/'', Paren (Chain LAdd (Words [Str ''0.3''])
                                     [(''-'', Words [Str ''0.1'']), (''-'', Words [Str ''0.2''])]))])
                [(''<'', Words [Str ''1''])])
      else None)"

definition example_module :: module where
  "example_module =
     \<lparr>m_catalog = initial_catalog, m_macros = [], m_re_match = (\<lambda>p x. False),
      m_tokenizer = example_tokenizer, m_depth = 8\<rparr>"

definition no_kwargs :: "string \<Rightarrow> xyz list option" where
  "no_kwargs k = None"

subsection \<open>Positions in a parse\<close>

text \<open>
  \<open>reaches ev s t ag u ag'\<close>: the evaluation of the parse \<open>t\<close>, started on the atom group
  \<open>ag\<close>, comes to the part \<open>u\<close> of \<open>t\<close> with the atom group \<open>ag'\<close>, every part matched
  before \<open>u\<close> having been evaluated without an exception.
\<close>

inductive reaches :: "evaluator \<Rightarrow> select \<Rightarrow> ptree \<Rightarrow> atomgroup \<Rightarrow> ptree \<Rightarrow> atomgroup \<Rightarrow> bool"
  and reaches_rest ::
    "evaluator \<Rightarrow> select \<Rightarrow> (string \<times> ptree) list \<Rightarrow> atomgroup \<Rightarrow> ptree \<Rightarrow> atomgroup \<Rightarrow> bool"
  for ev :: evaluator and s :: select where
  here: "reaches ev s t ag t ag"
| paren: "reaches ev s t ag u ag' \<Longrightarrow> reaches ev s (Paren t) ag u ag'"
| prefix: "reaches ev s t ag u ag' \<Longrightarrow> reaches ev s (Prefix l op t) ag u ag'"
| chain_first: "reaches ev s t ag u ag' \<Longrightarrow> reaches ev s (Chain l t rest) ag u ag'"
| chain_rest: "run ev s t ag = (Inr ts, ag1) \<Longrightarrow> reaches_rest ev s rest ag1 u ag' \<Longrightarrow>
     reaches ev s (Chain l t rest) ag u ag'"
| rest_first: "reaches ev s t ag u ag' \<Longrightarrow> reaches_rest ev s ((op, t) # rest) ag u ag'"
| rest_later: "run ev s t ag = (Inr ts, ag1) \<Longrightarrow> reaches_rest ev s rest ag1 u ag' \<Longrightarrow>
     reaches_rest ev s ((op, t) # rest) ag u ag'"

text \<open>An atom group of eight atoms that has residue numbers only.\<close>

definition ranges_ag :: atomgroup where
  "ranges_ag =
     \<lparr>ag_n_atoms = 8,
      ag_coords = None,
      ag_fields = (\<lambda>k. if k = ''resnum'' then Some (IntA [1, 2, 5, 9, 10, 14, 15, 16]) else None),
      ag_data = (\<lambda>k. None)\<rparr>"

section \<open>Properties\<close>

subsection \<open>Dictionaries and the error monad\<close>

lemma bind_Inr [simp]: "bind (Inr x) f = f x"
  by (simp add: bind_def)

lemma bind_Inl [simp]: "bind (Inl e) f = Inl e"
  by (simp add: bind_def)

lemma map_of_dict_set: "map_of (dict_set d k v) k' = (if k' = k then Some v else map_of d k')"
  by (induction d k v rule: dict_set.induct) auto

subsection \<open>Keyword definitions\<close>

lemma setReadonly_ok:
  assumes "base_keys d"
  shows "\<exists>d'. setReadonlyResidueNames d = Inr d' \<and> derived_consistent d' \<and>
           (\<forall>k. k \<notin> set (map fst KEYWORD_RESNAMES_READONLY) \<longrightarrow> map_of d' k = map_of d k)"
proof -
  from assms obtain p c a b s m h u where
    "map_of d ''protein'' = Some p" "map_of d ''cyclic'' = Some c" "map_of d ''acidic'' = Some a"
    "map_of d ''basic'' = Some b" "map_of d ''small'' = Some s" "map_of d ''medium'' = Some m"
    "map_of d ''hydrophobic'' = Some h" "map_of d ''buried'' = Some u"
    by (auto simp: base_keys_def)
  then show ?thesis
    by (auto simp: setReadonlyResidueNames_def resnames_of_def map_of_dict_set Let_def
        derived_consistent_def names_def difference_def KEYWORD_RESNAMES_READONLY_def)
qed

text \<open>
  C8, as amended. \<^verbatim>\<open>setKeywordResnames\<close> on a derived (read-only) keyword does not
  raise: it logs a warning and returns, and every keyword table is as before. On a keyword
  of \<^verbatim>\<open>KEYWORD_RESNAMES\<close> that is not derived it returns with the keyword's residue
  names replaced by the given ones, every derived keyword of \<^verbatim>\<open>KEYWORD_RESNAMES\<close>
  recomputed from the updated table (charged is acidic united with basic, and so on), and
  every other keyword's residue names unchanged.
\<close>

theorem setKeywordResnames_contract:
  "(keyword \<in> set (map fst KEYWORD_RESNAMES_READONLY) \<longrightarrow>
      setKeywordResnames keyword resnames cat = Inr (cat, [Warning])) \<and>
   (keyword \<notin> set (map fst KEYWORD_RESNAMES_READONLY) \<and>
    keyword \<in> set (map fst (KEYWORD_RESNAMES cat)) \<and> base_keys (KEYWORD_RESNAMES cat) \<longrightarrow>
      (\<exists>d'. setKeywordResnames keyword resnames cat = Inr (cat\<lparr>KEYWORD_RESNAMES := d'\<rparr>, []) \<and>
            names d' keyword = set resnames \<and>
            derived_consistent d' \<and>
            (\<forall>k. k \<notin> set (map fst KEYWORD_RESNAMES_READONLY) \<and> k \<noteq> keyword \<longrightarrow>
                 map_of d' k = map_of (KEYWORD_RESNAMES cat) k)))"
proof (intro conjI impI)
  assume "keyword \<in> set (map fst KEYWORD_RESNAMES_READONLY)"
  then show "setKeywordResnames keyword resnames cat = Inr (cat, [Warning])"
    by (simp add: setKeywordResnames_def)
next
  assume a: "keyword \<notin> set (map fst KEYWORD_RESNAMES_READONLY) \<and>
    keyword \<in> set (map fst (KEYWORD_RESNAMES cat)) \<and> base_keys (KEYWORD_RESNAMES cat)"
  let ?d = "dict_set (KEYWORD_RESNAMES cat) keyword (remdups resnames)"
  have "base_keys ?d"
    using a by (simp add: base_keys_def map_of_dict_set)
  from setReadonly_ok [OF this] obtain d' where
    d': "setReadonlyResidueNames ?d = Inr d'" "derived_consistent d'"
    "\<forall>k. k \<notin> set (map fst KEYWORD_RESNAMES_READONLY) \<longrightarrow> map_of d' k = map_of ?d k"
    by blast
  have "names d' keyword = set resnames"
    using d'(3) a by (simp add: names_def map_of_dict_set)
  moreover have "\<forall>k. k \<notin> set (map fst KEYWORD_RESNAMES_READONLY) \<and> k \<noteq> keyword \<longrightarrow>
      map_of d' k = map_of (KEYWORD_RESNAMES cat) k"
    using d'(3) by (simp add: map_of_dict_set)
  moreover have "setKeywordResnames keyword resnames cat = Inr (cat\<lparr>KEYWORD_RESNAMES := d'\<rparr>, [])"
    using a d'(1) by (simp add: setKeywordResnames_def)
  ultimately show "\<exists>d'. setKeywordResnames keyword resnames cat = Inr (cat\<lparr>KEYWORD_RESNAMES := d'\<rparr>, []) \<and>
            names d' keyword = set resnames \<and>
            derived_consistent d' \<and>
            (\<forall>k. k \<notin> set (map fst KEYWORD_RESNAMES_READONLY) \<and> k \<noteq> keyword \<longrightarrow>
                 map_of d' k = map_of (KEYWORD_RESNAMES cat) k)"
    using d'(2) by blast
qed

theorem setKeywordResnames_contract_witness:
  "setKeywordResnames ''surface'' [''ALA''] initial_catalog = Inr (initial_catalog, [Warning]) \<and>
   (\<exists>d'. setKeywordResnames ''acidic'' [''ASP''] initial_catalog
            = Inr (initial_catalog\<lparr>KEYWORD_RESNAMES := d'\<rparr>, []) \<and>
          names d' ''acidic'' = {''ASP''} \<and>
          names d' ''charged'' = names d' ''acidic'' \<union> names d' ''basic'' \<and>
          names d' ''basic'' = {''LYS'', ''ARG'', ''HIS'', ''HSP'', ''HSD''})"
proof -
  have r: "''surface'' \<in> set (map fst KEYWORD_RESNAMES_READONLY)"
    by (simp add: KEYWORD_RESNAMES_READONLY_def)
  have h: "''acidic'' \<notin> set (map fst KEYWORD_RESNAMES_READONLY) \<and>
      ''acidic'' \<in> set (map fst (KEYWORD_RESNAMES initial_catalog)) \<and>
      base_keys (KEYWORD_RESNAMES initial_catalog)"
    by code_simp
  have b: "map_of (KEYWORD_RESNAMES initial_catalog) ''basic''
      = Some [''LYS'', ''ARG'', ''HIS'', ''HSP'', ''HSD'']"
    by code_simp
  have nb: "''basic'' \<notin> set (map fst KEYWORD_RESNAMES_READONLY) \<and> ''basic'' \<noteq> ''acidic''"
    by (simp add: KEYWORD_RESNAMES_READONLY_def)
  from setKeywordResnames_contract [of "''acidic''" "[''ASP'']" initial_catalog] h
  obtain d' where d': "setKeywordResnames ''acidic'' [''ASP''] initial_catalog
            = Inr (initial_catalog\<lparr>KEYWORD_RESNAMES := d'\<rparr>, [])"
     "names d' ''acidic'' = set [''ASP'']" "derived_consistent d'"
     "\<forall>k. k \<notin> set (map fst KEYWORD_RESNAMES_READONLY) \<and> k \<noteq> ''acidic'' \<longrightarrow>
                 map_of d' k = map_of (KEYWORD_RESNAMES initial_catalog) k"
    by blast
  from d'(4) nb b have "names d' ''basic'' = {''LYS'', ''ARG'', ''HIS'', ''HSP'', ''HSD''}"
    by (simp add: names_def)
  moreover from d'(3) have "names d' ''charged'' = names d' ''acidic'' \<union> names d' ''basic''"
    by (simp add: derived_consistent_def)
  moreover have "setKeywordResnames ''surface'' [''ALA''] initial_catalog = Inr (initial_catalog, [Warning])"
    using setKeywordResnames_contract [of "''surface''" "[''ALA'']" initial_catalog] r by blast
  ultimately show ?thesis using d'(1) d'(2)
    by (intro conjI exI [of _ d']) simp_all
qed

text \<open>
  C8 as stated fails: on the derived keyword charged the call returns, it raises nothing.
\<close>

theorem setKeywordResnames_readonly_counterexample:
  "\<not> (\<exists>e. setKeywordResnames ''charged'' [''ASP''] initial_catalog = Inl e)"
  by (simp add: setKeywordResnames_def KEYWORD_RESNAMES_READONLY_def)

subsection \<open>Macros\<close>

text \<open>
  C9, as amended. \<^verbatim>\<open>defSelectionMacro\<close> raises \<^verbatim>\<open>ValueError\<close> when the name is an
  existing keyword or is not made of lower-case letters only; when the body does not
  compile (the test selection raises \<^verbatim>\<open>SelectionError\<close>) it logs a warning and leaves
  the macro table unchanged; \<^verbatim>\<open>delSelectionMacro\<close> of a name that is not in the table
  logs a warning, raises nothing, and leaves the table unchanged.
\<close>

theorem macro_contract:
  "(isKeyword name \<or> \<not> (isalpha name \<and> islower name) \<longrightarrow>
      defSelectionMacro test name selstr macros = Inl ValueError) \<and>
   (\<not> isKeyword name \<and> isalpha name \<and> islower name \<and> test selstr = Inl (SelectionError d) \<longrightarrow>
      defSelectionMacro test name selstr macros = Inr (macros, [Info, Warning])) \<and>
   (\<not> isMacro macros name \<longrightarrow> delSelectionMacro name macros = (macros, [Warning]))"
proof (intro conjI impI)
  assume "isKeyword name \<or> \<not> (isalpha name \<and> islower name)"
  then show "defSelectionMacro test name selstr macros = Inl ValueError"
    by (auto simp: defSelectionMacro_def)
next
  assume "\<not> isKeyword name \<and> isalpha name \<and> islower name \<and> test selstr = Inl (SelectionError d)"
  then show "defSelectionMacro test name selstr macros = Inr (macros, [Info, Warning])"
    by (simp add: defSelectionMacro_def)
next
  assume "\<not> isMacro macros name"
  then have "map_of macros name = None"
    by (simp add: isMacro_def map_of_eq_None_iff)
  then show "delSelectionMacro name macros = (macros, [Warning])"
    by (simp add: delSelectionMacro_def)
qed

theorem macro_contract_witness:
  "defSelectionMacro (\<lambda>s. Inr ()) ''protein'' ''name CA'' [] = Inl ValueError \<and>
   defSelectionMacro (\<lambda>s. Inr ()) ''cBeta'' ''name CB'' [] = Inl ValueError \<and>
   defSelectionMacro (\<lambda>s. Inl (SelectionError [])) ''cbeta'' ''name'' [(''cbeta'', ''name CB'')]
     = Inr ([(''cbeta'', ''name CB'')], [Info, Warning]) \<and>
   delSelectionMacro ''cbeta'' [(''calpha'', ''name CA'')] = ([(''calpha'', ''name CA'')], [Warning])"
proof -
  have k1: "isKeyword ''protein''" by code_simp
  have k2: "\<not> (isalpha ''cBeta'' \<and> islower ''cBeta'')" by code_simp
  have k3: "\<not> isKeyword ''cbeta'' \<and> isalpha ''cbeta'' \<and> islower ''cbeta'' \<and>
      (\<lambda>s. Inl (SelectionError [])) ''name'' = (Inl (SelectionError []) :: unit res)" by code_simp
  have k4: "\<not> isMacro [(''calpha'', ''name CA'')] ''cbeta''" by code_simp
  show ?thesis
    using macro_contract [of "''protein''" "\<lambda>s. Inr ()" "''name CA''" "[]"] k1
      macro_contract [of "''cBeta''" "\<lambda>s. Inr ()" "''name CB''" "[]"] k2
      macro_contract [of "''cbeta''" "\<lambda>s. Inl (SelectionError [])" "''name''" "[(''cbeta'', ''name CB'')]" "[]"] k3
      macro_contract [of "''cbeta''" _ _ "[(''calpha'', ''name CA'')]"] k4
    by blast
qed

text \<open>
  C9 as stated fails: the reserved word \<^verbatim>\<open>of\<close> is not a keyword, and a macro of that
  name is defined.
\<close>

theorem macro_reserved_counterexample:
  "(\<forall>field_names. isReserved field_names ''of'') \<and>
   defSelectionMacro (\<lambda>s. Inr ()) ''of'' ''protein'' [] = Inr ([(''of'', ''protein'')], [Info, Info])"
proof -
  have "\<forall>field_names. isReserved field_names ''of''"
    by (simp add: isReserved_def RESERVED_def)
  moreover have "defSelectionMacro (\<lambda>s. Inr ()) ''of'' ''protein'' [] = Inr ([(''of'', ''protein'')], [Info, Info])"
    by code_simp
  ultimately show ?thesis by blast
qed

subsection \<open>The state monad\<close>

lemma sbind_simps [simp]:
  "sbind (ret x) f = f x"
  "sbind (raise e) f = raise e"
  by (auto simp: sbind_def ret_def raise_def fun_eq_iff)




subsection \<open>The length of the mask\<close>

text \<open>
  C1 fails on a subset. \<^verbatim>\<open>_index\<close> returns \<^verbatim>\<open>self._indices or np.arange(self._ag._n_atoms)\<close>,
  and the index array \<^verbatim>\<open>[0]\<close> of a subset that holds only the first atom is false as a
  truth value: for the selection \<^verbatim>\<open>index < 5\<close> on that subset of a group of three atoms,
  \<^verbatim>\<open>getBoolArray\<close> returns a mask of three elements, where the subset has one atom.
\<close>

theorem getBoolArray_length_failing_input:
  "numAtoms (Subset example_ag [0]) = 1 \<and>
   fst (getBoolArray example_module (Subset example_ag [0]) ''index < 5'' no_kwargs)
     = Inr [True, True, True]"
  by code_simp

subsection \<open>Chains of \<^verbatim>\<open>or\<close>\<close>

text \<open>
  C2 fails on a chain of three operands of \<^verbatim>\<open>or\<close>. After an operand, \<^verbatim>\<open>_or\<close> narrows the
  atoms still to evaluate with \<^verbatim>\<open>evalonly[torf.nonzero()[0]]\<close>, the atoms the operand has just
  selected, where the atoms it has not selected are meant. On a group of three atoms
  \<^verbatim>\<open>none or none or all\<close> selects no atom, where the element-wise disjunction of the masks of
  \<^verbatim>\<open>none\<close>, \<^verbatim>\<open>none\<close> and \<^verbatim>\<open>all\<close> selects every atom.
\<close>

theorem or_chain_failing_input:
  "fst (getBoolArray example_module (AtomGroup example_ag) ''none or none or all'' no_kwargs)
     = Inr [False, False, False] \<and>
   fst (getBoolArray example_module (AtomGroup example_ag) ''none'' no_kwargs)
     = Inr [False, False, False] \<and>
   fst (getBoolArray example_module (AtomGroup example_ag) ''all'' no_kwargs)
     = Inr [True, True, True]"
  by code_simp

subsection \<open>Stored arrays\<close>

text \<open>
  C7 fails on the negation of a stored column. \<^verbatim>\<open>_not\<close> inverts its operand in place,
  \<^verbatim>\<open>np.invert(torf, torf)\<close>, and for an atom group \<^verbatim>\<open>_getData\<close> hands out the stored array
  itself. On a group with the residue numbers 5, 7 and 9 the selection
  \<^verbatim>\<open>(not resnum) < 0\<close> selects every atom and leaves the residue numbers -6, -8 and -10 in
  the group; the same selection on the group after the call selects no atom.
\<close>

theorem getBoolArray_not_pure_failing_input:
  "(case getBoolArray example_module (AtomGroup example_ag) ''(not resnum) < 0'' no_kwargs of
      (r1, ag1) \<Rightarrow>
        r1 = Inr [True, True, True] \<and>
        ag_fields example_ag ''resnum'' = Some (IntA [5, 7, 9]) \<and>
        ag_fields ag1 ''resnum'' = Some (IntA [- 6, - 8, - 10]) \<and>
        fst (getBoolArray example_module (AtomGroup ag1) ''(not resnum) < 0'' no_kwargs)
          = Inr [False, False, False])"
  by code_simp

subsection \<open>Indices of the selected atoms\<close>

lemma nonzero_set: "set (nonzero m) = {i. i < length m \<and> m ! i}"
  by (auto simp: nonzero_def)

lemma nonzero_sorted: "sorted_wrt (<) (nonzero m)"
  unfolding nonzero_def by (rule sorted_wrt_filter) (simp add: sorted_wrt_upt)

text \<open>
  C10. Whenever \<^verbatim>\<open>getBoolArray\<close> returns a mask, \<^verbatim>\<open>getIndices\<close> returns, with the same atom
  group after the call, the positions at which the mask is true: each of them once, in
  strictly increasing order, and none exactly when the mask is true nowhere.
\<close>

theorem getIndices_nonzero:
  assumes "getBoolArray m atoms selstr kwargs = (Inr torf, ag')"
  shows "\<exists>idx. getIndices m atoms selstr kwargs = (Inr idx, ag') \<and>
           set idx = {i. i < length torf \<and> torf ! i} \<and>
           sorted_wrt (<) idx \<and> distinct idx \<and>
           (idx = [] \<longleftrightarrow> (\<forall>i < length torf. \<not> torf ! i))"
proof -
  have g: "getIndices m atoms selstr kwargs = (Inr (nonzero torf), ag')"
    using assms by (simp add: getIndices_def)
  have d: "distinct (nonzero torf)"
    by (simp add: nonzero_def)
  have e: "nonzero torf = [] \<longleftrightarrow> (\<forall>i < length torf. \<not> torf ! i)"
  proof -
    have "nonzero torf = [] \<longleftrightarrow> set (nonzero torf) = {}" by simp
    also have "\<dots> \<longleftrightarrow> (\<forall>i < length torf. \<not> torf ! i)"
      unfolding nonzero_set by auto
    finally show ?thesis .
  qed
  show ?thesis
    using g nonzero_set [of torf] nonzero_sorted [of torf] d e by blast
qed

theorem getIndices_nonzero_witness:
  "\<exists>ag' idx. getBoolArray example_module (AtomGroup example_ag) ''flag'' no_kwargs
                 = (Inr [True, False, True], ag') \<and>
      getIndices example_module (AtomGroup example_ag) ''flag'' no_kwargs = (Inr idx, ag') \<and>
      set idx = {i. i < length [True, False, True] \<and> [True, False, True] ! i} \<and>
      sorted_wrt (<) idx \<and> distinct idx"
proof -
  have "fst (getBoolArray example_module (AtomGroup example_ag) ''flag'' no_kwargs)
      = Inr [True, False, True]"
    by code_simp
  then obtain ag' where
    a: "getBoolArray example_module (AtomGroup example_ag) ''flag'' no_kwargs
          = (Inr [True, False, True], ag')"
    by (cases "getBoolArray example_module (AtomGroup example_ag) ''flag'' no_kwargs") simp
  from getIndices_nonzero [OF a] a show ?thesis by blast
qed

subsection \<open>Ranges of residue numbers\<close>

lemma range_to: "getNumRange [Str ''5'', Str ''10'', Str ''to'', Str ''15''] False
    = Inr (Some [NInt 5, NList 10 15])"
  by code_simp

lemma range_colon: "getNumRange [Str ''10:15''] False = Inr (Some [NTuple2 10 15])"
  by code_simp

lemma range_stride: "getNumRange [Str ''1:10:2''] False = Inr (Some [NTuple3 1 10 2])"
  by code_simp

lemma range_floats: "getNumRange [Str ''9.5'', Str ''to'', Str ''14.5''] False
    = Inr (Some [NList (19 / 2) (29 / 2)])"
  by code_simp

lemma range_not_integers: "getNumRange [Str ''10.7:15.2''] False = Inl (SelectionError [])"
  by code_simp

lemma range_1_10_2: "py_range 1 10 2 = Inr [1, 3, 5, 7, 9]"
  by code_simp

lemma single_word:
  "length (split_ws (strip ''resnum 5 10 to 15'')) \<noteq> 1"
  "length (split_ws (strip ''resnum 10:15'')) \<noteq> 1"
  "length (split_ws (strip ''resnum 1:10:2'')) \<noteq> 1"
  "length (split_ws (strip ''resnum 10.7:15.2'')) \<noteq> 1"
  by code_simp+

lemma resnum_not_alnum: "\<not> isAlnumKeyword ''resnum''"
  by code_simp

lemma set_where_map:
  "set_where (map f xs) (map g xs) = Inr (map (\<lambda>x. f x \<or> g x) xs)"
  by (simp add: set_where_def list_eq_iff_nth_eq)

lemma int_5_10_15: "(r = 5 \<or> 10 \<le> r \<and> r \<le> 15) = (r \<in> {5, 10, 11, 12, 13, 14, 15::int})"
  by auto

lemma int_10_14: "(10 \<le> r \<and> r < 15) = (r \<in> {10, 11, 12, 13, 14::int})"
  by auto

lemma int_odd: "(r = 1 \<or> r = 3 \<or> r = 5 \<or> r = 7 \<or> r = 9) = (r \<in> {1, 3, 5, 7, 9::int})"
  by auto

lemma resnum_item_plain:
  assumes "plain_item it" and "float_item it \<longrightarrow> (\<forall>r \<in> set rs. \<bar>r\<bar> \<le> 2 ^ 53)"
  shows "resnum_item rs ic (map f rs) it = Inr (Some (map (\<lambda>r. f r \<or> in_item it r) rs))"
proof (cases it)
  case (NInt i)
  then show ?thesis by (simp add: resnum_item_def set_where_map)
next
  case (NFlt x)
  then have "floats rs = Inr (map of_int rs)"
    using assms(2) by (simp add: floats_def)
  then show ?thesis using NFlt by (simp add: resnum_item_def set_where_map comp_def)
next
  case (NStr str)
  then show ?thesis using assms(1) by simp
next
  case (NList a b)
  then have "floats rs = Inr (map of_int rs)"
    using assms(2) by (simp add: floats_def)
  then show ?thesis using NList by (simp add: resnum_item_def set_where_map comp_def)
next
  case (NTuple2 a b)
  then show ?thesis by (simp add: resnum_item_def set_where_map)
next
  case (NTuple3 a b c)
  then have "c \<noteq> 0" using assms(1) by simp
  then have "\<exists>is. py_range a b c = Inr is"
    by (simp add: py_range_def)
  then obtain "is" where "py_range a b c = Inr is" ..
  then show ?thesis using NTuple3 by (simp add: resnum_item_def set_where_map)
qed

lemma items_loop_plain:
  assumes "\<forall>it \<in> set items. plain_item it"
    and "(\<exists>it \<in> set items. float_item it) \<longrightarrow> (\<forall>r \<in> set rs. \<bar>r\<bar> \<le> 2 ^ 53)"
  shows "items_loop (resnum_item rs ic) (map f rs) items
           = Inr (Some (map (\<lambda>r. f r \<or> (\<exists>it \<in> set items. in_item it r)) rs))"
  using assms
proof (induction items arbitrary: f)
  case Nil
  then show ?case by simp
next
  case (Cons it items)
  have 1: "resnum_item rs ic (map f rs) it = Inr (Some (map (\<lambda>r. f r \<or> in_item it r) rs))"
    by (rule resnum_item_plain) (use Cons.prems in auto)
  have 2: "items_loop (resnum_item rs ic) (map (\<lambda>r. f r \<or> in_item it r) rs) items
             = Inr (Some (map (\<lambda>r. (f r \<or> in_item it r) \<or> (\<exists>it \<in> set items. in_item it r)) rs))"
    by (rule Cons.IH) (use Cons.prems in auto)
  show ?case by (simp add: 1 2 disj_assoc)
qed

lemma resnum_data:
  assumes "resnums atoms = Some rs"
    and "s_indices s = (case atoms of AtomGroup ag \<Rightarrow> None | Subset ag idx \<Rightarrow> Some idx)"
  shows "getData_array s (getAtomGroup atoms) ''resnum'' = Inr (IntA rs)"
proof (cases atoms)
  case (AtomGroup ag)
  then show ?thesis using assms
    by (auto simp: getData_array_def getData_def read_col_def
        split: option.splits ndarray.splits if_splits)
next
  case (Subset ag idx)
  then show ?thesis using assms
    by (auto simp: getData_array_def getData_def read_col_def take_idx_def
        split: option.splits ndarray.splits if_splits)
qed

lemma resnums_length: "resnums atoms = Some rs \<Longrightarrow> numAtoms atoms = length rs"
  by (cases atoms) (auto split: option.splits ndarray.splits if_splits)

lemma resnum_plain:
  assumes "resnums atoms = Some rs" and "getNumRange values False = Inr (Some items)"
    and "\<forall>it \<in> set items. plain_item it"
    and "(\<exists>it \<in> set items. float_item it) \<longrightarrow> (\<forall>r \<in> set rs. \<bar>r\<bar> \<le> 2 ^ 53)"
  shows "resnum (selector m atoms kwargs) (getAtomGroup atoms) values None
           = Inr (Some (Arr (BoolA (map (\<lambda>r. \<exists>it \<in> set items. in_item it r) rs))))"
proof -
  have z: "replicate (length rs) False = map (\<lambda>r. False) rs"
    by (simp add: map_replicate_const)
  show ?thesis
    unfolding resnum_def
    using assms(2) items_loop_plain [OF assms(3) assms(4), of _ "\<lambda>r. False"]
    by (simp add: resnum_data [OF assms(1)] resnums_length [OF assms(1)] restrict_def ints_of_def z)
qed

lemma resnum_error:
  assumes "resnums atoms = Some rs" and "getNumRange values False = Inl e"
  shows "resnum (selector m atoms kwargs) (getAtomGroup atoms) values None = Inl e"
  unfolding resnum_def
  using assms(2)
  by (simp add: resnum_data [OF assms(1)] restrict_def)

lemma getBoolArray_resnum:
  assumes "m_tokenizer m (prepareSelstr (m_macros m) selstr) = Some (Words (Str ''resnum'' # v # vs))"
    and "length (split_ws (strip selstr)) \<noteq> 1"
    and "m_depth m = Suc d"
    and "resnum (selector m atoms kwargs) (getAtomGroup atoms) (v # vs) None
           = Inr (Some (Arr (BoolA torf)))"
  shows "getBoolArray m atoms selstr kwargs = (Inr torf, getAtomGroup atoms)"
  using assms
  by (simp add: getBoolArray_def evalSelstr_def Let_def defaultAction_def is_array_def
      evaluate_body_def resnum_not_alnum sbind_def ret_def reads_def)

lemma getBoolArray_resnum_error:
  assumes "m_tokenizer m (prepareSelstr (m_macros m) selstr) = Some (Words (Str ''resnum'' # v # vs))"
    and "length (split_ws (strip selstr)) \<noteq> 1"
    and "m_depth m = Suc d"
    and "resnum (selector m atoms kwargs) (getAtomGroup atoms) (v # vs) None = Inl e"
  shows "getBoolArray m atoms selstr kwargs = (Inl e, getAtomGroup atoms)"
  using assms
  by (simp add: getBoolArray_def evalSelstr_def Let_def defaultAction_def is_array_def
      evaluate_body_def resnum_not_alnum sbind_def ret_def reads_def)

lemma numitem_to:
  assumes "contains ''to'' item" and "split ''to'' item = [a, b]"
    and "py_float a = Inr x" and "py_float b = Inr y"
  shows "numitem_of intfloat item = Inr (Some (NList x y))"
  using assms by (simp add: numitem_of_def)

lemma numitem_colon:
  assumes "\<not> contains ''to'' item" and "contains '':'' item" and "split '':'' item = [a, b]"
  shows "numitem_of intfloat item
           = (case (py_int a, py_int b) of
                (Inr x, Inr y) \<Rightarrow> Inr (Some (NTuple2 x y))
              | _ \<Rightarrow> Inl (SelectionError []))"
  using assms by (simp add: numitem_of_def)

text \<open>
  C5. Let \<open>rs\<close> be the residue numbers of the atoms of a collection, an atom group or a
  subset of one, and let the grammar split the selection strings into their words. Then
  \<^verbatim>\<open>resnum 10:15\<close> selects exactly the atoms whose residue number is one of 10, 11, 12,
  13, 14, and \<^verbatim>\<open>resnum 1:10:2\<close> those with one of 1, 3, 5, 7, 9; \<^verbatim>\<open>resnum 5 10 to 15\<close>
  selects those with one of 5, 10, 11, 12, 13, 14, 15, the residue numbers being compared
  as floats, which is exact up to \<open>2 ^ 53\<close>; \<^verbatim>\<open>resnum 10.7:15.2\<close> raises
  \<^verbatim>\<open>SelectionError\<close>. In general, for the items \<^verbatim>\<open>_getNumRange\<close> reads from the words after
  \<^verbatim>\<open>resnum\<close>, the atoms selected are those whose residue number is in one of the items:
  equal to a number, between \<open>a\<close> and \<open>b\<close> with both included for \<^verbatim>\<open>a to b\<close>, from \<open>a\<close> up to
  \<open>b\<close> without \<open>b\<close> for \<^verbatim>\<open>a:b\<close>, in \<^verbatim>\<open>range(a, b, c)\<close> for \<^verbatim>\<open>a:b:c\<close>. The operands of
  \<^verbatim>\<open>to\<close> are read by \<^verbatim>\<open>float\<close>, those of \<^verbatim>\<open>:\<close> by \<^verbatim>\<open>int\<close>, and an operand of \<^verbatim>\<open>:\<close> that
  \<^verbatim>\<open>int\<close> does not read raises \<^verbatim>\<open>SelectionError\<close>. The atom group is left as it was.
\<close>

theorem resnum_ranges:
  assumes "resnums atoms = Some rs" and "0 < m_depth m"
    and "m_tokenizer m (prepareSelstr (m_macros m) ''resnum 5 10 to 15'')
           = Some (Words [Str ''resnum'', Str ''5'', Str ''10'', Str ''to'', Str ''15''])"
    and "m_tokenizer m (prepareSelstr (m_macros m) ''resnum 10:15'')
           = Some (Words [Str ''resnum'', Str ''10:15''])"
    and "m_tokenizer m (prepareSelstr (m_macros m) ''resnum 1:10:2'')
           = Some (Words [Str ''resnum'', Str ''1:10:2''])"
    and "m_tokenizer m (prepareSelstr (m_macros m) ''resnum 10.7:15.2'')
           = Some (Words [Str ''resnum'', Str ''10.7:15.2''])"
    and "m_tokenizer m (prepareSelstr (m_macros m) selstr) = Some (Words (Str ''resnum'' # v # vs))"
    and "length (split_ws (strip selstr)) \<noteq> 1"
    and "getNumRange (v # vs) False = Inr (Some items)"
    and "\<forall>it \<in> set items. plain_item it"
  shows "((\<forall>r \<in> set rs. \<bar>r\<bar> \<le> 2 ^ 53) \<longrightarrow>
            getBoolArray m atoms ''resnum 5 10 to 15'' kwargs
              = (Inr (map (\<lambda>r. r \<in> {5, 10, 11, 12, 13, 14, 15}) rs), getAtomGroup atoms)) \<and>
         getBoolArray m atoms ''resnum 10:15'' kwargs
           = (Inr (map (\<lambda>r. r \<in> {10, 11, 12, 13, 14}) rs), getAtomGroup atoms) \<and>
         getBoolArray m atoms ''resnum 1:10:2'' kwargs
           = (Inr (map (\<lambda>r. r \<in> {1, 3, 5, 7, 9}) rs), getAtomGroup atoms) \<and>
         getBoolArray m atoms ''resnum 10.7:15.2'' kwargs
           = (Inl (SelectionError []), getAtomGroup atoms) \<and>
         (((\<exists>it \<in> set items. float_item it) \<longrightarrow> (\<forall>r \<in> set rs. \<bar>r\<bar> \<le> 2 ^ 53)) \<longrightarrow>
            getBoolArray m atoms selstr kwargs
              = (Inr (map (\<lambda>r. \<exists>it \<in> set items. in_item it r) rs), getAtomGroup atoms)) \<and>
         (\<forall>item a b x y.
            contains ''to'' item \<and> split ''to'' item = [a, b] \<and>
            py_float a = Inr x \<and> py_float b = Inr y \<longrightarrow>
            numitem_of False item = Inr (Some (NList x y))) \<and>
         (\<forall>item a b.
            \<not> contains ''to'' item \<and> contains '':'' item \<and> split '':'' item = [a, b] \<longrightarrow>
            numitem_of False item
              = (case (py_int a, py_int b) of
                   (Inr x, Inr y) \<Rightarrow> Inr (Some (NTuple2 x y))
                 | _ \<Rightarrow> Inl (SelectionError [])))"
proof -
  obtain d where d: "m_depth m = Suc d"
    using assms(2) by (cases "m_depth m") auto
  have e1: "(\<exists>it \<in> set [NInt 5, NList 10 15]. in_item it r) = (r \<in> {5, 10, 11, 12, 13, 14, 15})" for r
    by (simp add: int_5_10_15 del: insert_iff)
  have e2: "(\<exists>it \<in> set [NTuple2 10 15]. in_item it r) = (r \<in> {10, 11, 12, 13, 14})" for r
    by (simp add: int_10_14 del: insert_iff)
  have e3: "(\<exists>it \<in> set [NTuple3 1 10 2]. in_item it r) = (r \<in> {1, 3, 5, 7, 9})" for r
    by (simp add: range_1_10_2 int_odd del: insert_iff)
  have c1: "getBoolArray m atoms ''resnum 5 10 to 15'' kwargs
              = (Inr (map (\<lambda>r. r \<in> {5, 10, 11, 12, 13, 14, 15}) rs), getAtomGroup atoms)"
    if b: "\<forall>r \<in> set rs. \<bar>r\<bar> \<le> 2 ^ 53"
  proof -
    have "resnum (selector m atoms kwargs) (getAtomGroup atoms)
            [Str ''5'', Str ''10'', Str ''to'', Str ''15''] None
          = Inr (Some (Arr (BoolA (map (\<lambda>r. \<exists>it \<in> set [NInt 5, NList 10 15]. in_item it r) rs))))"
      by (rule resnum_plain [OF assms(1) range_to]) (use b in simp_all)
    from getBoolArray_resnum [OF assms(3) single_word(1) d this] show ?thesis
      unfolding e1 .
  qed
  have c2: "getBoolArray m atoms ''resnum 10:15'' kwargs
              = (Inr (map (\<lambda>r. r \<in> {10, 11, 12, 13, 14}) rs), getAtomGroup atoms)"
  proof -
    have "resnum (selector m atoms kwargs) (getAtomGroup atoms) [Str ''10:15''] None
          = Inr (Some (Arr (BoolA (map (\<lambda>r. \<exists>it \<in> set [NTuple2 10 15]. in_item it r) rs))))"
      by (rule resnum_plain [OF assms(1) range_colon]) simp_all
    from getBoolArray_resnum [OF assms(4) single_word(2) d this] show ?thesis
      unfolding e2 .
  qed
  have c3: "getBoolArray m atoms ''resnum 1:10:2'' kwargs
              = (Inr (map (\<lambda>r. r \<in> {1, 3, 5, 7, 9}) rs), getAtomGroup atoms)"
  proof -
    have "resnum (selector m atoms kwargs) (getAtomGroup atoms) [Str ''1:10:2''] None
          = Inr (Some (Arr (BoolA (map (\<lambda>r. \<exists>it \<in> set [NTuple3 1 10 2]. in_item it r) rs))))"
      by (rule resnum_plain [OF assms(1) range_stride]) simp_all
    from getBoolArray_resnum [OF assms(5) single_word(3) d this] show ?thesis
      unfolding e3 .
  qed
  have c4: "getBoolArray m atoms ''resnum 10.7:15.2'' kwargs
              = (Inl (SelectionError []), getAtomGroup atoms)"
    by (rule getBoolArray_resnum_error [OF assms(6) single_word(4) d])
      (rule resnum_error [OF assms(1) range_not_integers])
  have c5: "getBoolArray m atoms selstr kwargs
              = (Inr (map (\<lambda>r. \<exists>it \<in> set items. in_item it r) rs), getAtomGroup atoms)"
    if b: "(\<exists>it \<in> set items. float_item it) \<longrightarrow> (\<forall>r \<in> set rs. \<bar>r\<bar> \<le> 2 ^ 53)"
    by (rule getBoolArray_resnum [OF assms(7) assms(8) d])
      (rule resnum_plain [OF assms(1) assms(9) assms(10) b])
  have c6: "numitem_of False item = Inr (Some (NList x y))"
    if "contains ''to'' item \<and> split ''to'' item = [a, b] \<and> py_float a = Inr x \<and> py_float b = Inr y"
    for item a b x y
    using that numitem_to by blast
  have c7: "numitem_of False item
              = (case (py_int a, py_int b) of
                   (Inr x, Inr y) \<Rightarrow> Inr (Some (NTuple2 x y))
                 | _ \<Rightarrow> Inl (SelectionError []))"
    if "\<not> contains ''to'' item \<and> contains '':'' item \<and> split '':'' item = [a, b]"
    for item a b
    using that numitem_colon by blast
  show ?thesis
    using c1 c2 c3 c4 c5 c6 c7 by blast
qed

theorem resnum_ranges_witness:
  "getBoolArray example_module (Subset ranges_ag [6, 0, 4, 2]) ''resnum 5 10 to 15'' no_kwargs
     = (Inr [True, False, True, True], ranges_ag) \<and>
   getBoolArray example_module (Subset ranges_ag [6, 0, 4, 2]) ''resnum 10:15'' no_kwargs
     = (Inr [False, False, True, False], ranges_ag) \<and>
   getBoolArray example_module (Subset ranges_ag [6, 0, 4, 2]) ''resnum 1:10:2'' no_kwargs
     = (Inr [False, True, False, True], ranges_ag) \<and>
   getBoolArray example_module (Subset ranges_ag [6, 0, 4, 2]) ''resnum 10.7:15.2'' no_kwargs
     = (Inl (SelectionError []), ranges_ag) \<and>
   getBoolArray example_module (Subset ranges_ag [6, 0, 4, 2]) ''resnum 9.5 to 14.5'' no_kwargs
     = (Inr [False, False, True, False], ranges_ag) \<and>
   numitem_of False ''9.5to14.5'' = Inr (Some (NList (19 / 2) (29 / 2))) \<and>
   numitem_of False ''10.7:15.2'' = Inl (SelectionError [])"
proof -
  have r: "resnums (Subset ranges_ag [6, 0, 4, 2]) = Some [15, 1, 10, 5]"
    by (simp add: ranges_ag_def)
  have d: "0 < m_depth example_module"
    by (simp add: example_module_def)
  have t1: "m_tokenizer example_module (prepareSelstr (m_macros example_module) ''resnum 5 10 to 15'')
           = Some (Words [Str ''resnum'', Str ''5'', Str ''10'', Str ''to'', Str ''15''])"
    by code_simp
  have t2: "m_tokenizer example_module (prepareSelstr (m_macros example_module) ''resnum 10:15'')
           = Some (Words [Str ''resnum'', Str ''10:15''])"
    by code_simp
  have t3: "m_tokenizer example_module (prepareSelstr (m_macros example_module) ''resnum 1:10:2'')
           = Some (Words [Str ''resnum'', Str ''1:10:2''])"
    by code_simp
  have t4: "m_tokenizer example_module (prepareSelstr (m_macros example_module) ''resnum 10.7:15.2'')
           = Some (Words [Str ''resnum'', Str ''10.7:15.2''])"
    by code_simp
  have t5: "m_tokenizer example_module (prepareSelstr (m_macros example_module) ''resnum 9.5 to 14.5'')
           = Some (Words (Str ''resnum'' # Str ''9.5'' # [Str ''to'', Str ''14.5'']))"
    by code_simp
  have s5: "length (split_ws (strip ''resnum 9.5 to 14.5'')) \<noteq> 1"
    by code_simp
  have p5: "\<forall>it \<in> set [NList (19 / 2) (29 / 2)]. plain_item it"
    by simp
  have k1: "contains ''to'' ''9.5to14.5'' \<and> split ''to'' ''9.5to14.5'' = [''9.5'', ''14.5''] \<and>
            py_float ''9.5'' = Inr (19 / 2) \<and> py_float ''14.5'' = Inr (29 / 2)"
    by code_simp
  have k2: "\<not> contains ''to'' ''10.7:15.2'' \<and> contains '':'' ''10.7:15.2'' \<and>
            split '':'' ''10.7:15.2'' = [''10.7'', ''15.2'']"
    by code_simp
  have k3: "py_int ''10.7'' = Inl ValueError"
    by code_simp
  note th = resnum_ranges [OF r d t1 t2 t3 t4 t5 s5 range_floats p5, of no_kwargs]
  have a1: "getBoolArray example_module (Subset ranges_ag [6, 0, 4, 2]) ''resnum 5 10 to 15'' no_kwargs
     = (Inr [True, False, True, True], ranges_ag)"
    using th by simp
  have a2: "getBoolArray example_module (Subset ranges_ag [6, 0, 4, 2]) ''resnum 10:15'' no_kwargs
     = (Inr [False, False, True, False], ranges_ag)"
    using th by simp
  have a3: "getBoolArray example_module (Subset ranges_ag [6, 0, 4, 2]) ''resnum 1:10:2'' no_kwargs
     = (Inr [False, True, False, True], ranges_ag)"
    using th by simp
  have a4: "getBoolArray example_module (Subset ranges_ag [6, 0, 4, 2]) ''resnum 10.7:15.2'' no_kwargs
     = (Inl (SelectionError []), ranges_ag)"
    using th by simp
  have a5: "getBoolArray example_module (Subset ranges_ag [6, 0, 4, 2]) ''resnum 9.5 to 14.5'' no_kwargs
     = (Inr [False, False, True, False], ranges_ag)"
    using th by simp
  have a6: "numitem_of False ''9.5to14.5'' = Inr (Some (NList (19 / 2) (29 / 2)))"
    using th k1 by blast
  have "numitem_of False ''10.7:15.2''
          = (case (py_int ''10.7'', py_int ''15.2'') of
               (Inr x, Inr y) \<Rightarrow> Inr (Some (NTuple2 x y))
             | _ \<Rightarrow> Inl (SelectionError []))"
    using th k2 by blast
  then have a7: "numitem_of False ''10.7:15.2'' = Inl (SelectionError [])"
    by (simp add: k3)
  show ?thesis
    using a1 a2 a3 a4 a5 a6 a7 by blast
qed

subsection \<open>Division by zero\<close>







text \<open>
  The operands are doubles: \<^verbatim>\<open>0.3 - 0.1 - 0.2\<close> is not zero but \<open>- (2 ^ - 55)\<close>, and a
  division by it raises nothing.
\<close>

lemma division_by_rounding_error:
  "fst (getBoolArray example_module (AtomGroup example_ag) ''x / (0.3 - 0.1 - 0.2) < 1'' no_kwargs)
     = Inr [True, True, True]"
  by code_simp

end
